theory Spec2Isabelle
  imports Main "HOL-Library.Word"
begin

unbundle bit_operations_syntax

text \<open>
  A shallow embedding of \<^verbatim>\<open>server/swf/PlaceObject2Tag.cpp\<close>: the decoder of the
  PlaceObject, PlaceObject2 and PlaceObject3 tags (\<open>readPlaceObject\<close>,
  \<open>readPlaceObject2\<close>, \<open>readPlaceActions\<close>, \<open>read\<close>, \<open>loader\<close>) and \<open>execute\<close>.
  The member variables of the tag are a record that the readers take and return
  together with the state of the input; an exception is an error value.
\<close>

section \<open>Errors and sequencing\<close>

text \<open>
  A C++ exception leaving a reader is the value \<open>Inl e\<close>; a normal return is \<open>Inr v\<close>.
  \<open>bnd\<close> sequences two readers and lets the exception of the first one through.
\<close>

datatype DecodeError = TruncatedInput | AssertionFailure

definition bnd :: "'e + 'a \<Rightarrow> ('a \<Rightarrow> 'e + 'b) \<Rightarrow> 'e + 'b" where
  "bnd m f = (case m of Inl e \<Rightarrow> Inl e | Inr x \<Rightarrow> f x)"

section \<open>The bit/byte cursor (class stream)\<close>

type_synonym byte = "8 word"

text \<open>
  Modelled from the spec: class \<open>stream\<close> (stream.h, stream.cpp) is not under src/.
  Section 4.1 of the specification: sequential, forward-only access over the byte range
  of one tag, exposing the absolute position and the remaining byte count; bit reads are
  most-significant-bit-first; aligning discards the partially consumed byte; no
  operation reads past the end of the tag, an attempt fails with \<open>TruncatedInput\<close>.

  \<open>rest\<close> holds the bytes between the cursor and the declared end of the tag,
  \<open>position\<close> the absolute position of the next byte, \<open>unused_bits\<close> the bits of
  the current byte that were fetched but not yet consumed (most significant first).
\<close>

record stream =
  rest :: "byte list"
  position :: nat
  unused_bits :: "bool list"

text \<open>
  The decoder's surroundings beyond the cursor: the \<open>action_buffer\<close> objects allocated
  with \<open>new\<close> (addressed by their index) and the diagnostic log. The log holds the
  \<open>log_swferror\<close> and \<open>log_debug\<close> messages of the source; the parse trace
  (\<open>IF_VERBOSE_PARSE\<close>) is left out. A reader that ends with an exception returns
  no state, so what it had logged before is not kept.
\<close>

datatype log_msg =
    ReservedFieldNonzero "16 word"
  | EventLengthBeyondTag "32 word" nat
  | ReadMoreThanEventLength "32 word" nat
  | SkippingExcessiveBytes "32 word" nat
  | BytesSkippingFailed
  | UnknownEventType "32 word"
  | DepthOutOfStaticZone int

record parse_state = stream +
  action_buffers :: "byte list list"
  log :: "log_msg list"

definition get_position :: "'a stream_scheme \<Rightarrow> nat" where
  "get_position s = position s"

definition get_tag_end_position :: "'a stream_scheme \<Rightarrow> nat" where
  "get_tag_end_position s = position s + length (rest s)"

definition align :: "'a stream_scheme \<Rightarrow> 'a stream_scheme" where
  "align s = s\<lparr>unused_bits := []\<rparr>"

text \<open>The cursor moved forward over \<open>n\<close> whole bytes.\<close>

definition advance :: "nat \<Rightarrow> 'a stream_scheme \<Rightarrow> 'a stream_scheme" where
  "advance n s = (align s)\<lparr>rest := drop n (rest s), position := position s + n\<rparr>"

definition read_byte :: "'a stream_scheme \<Rightarrow> DecodeError + (byte \<times> 'a stream_scheme)" where
  "read_byte s =
     (case rest s of
        [] \<Rightarrow> Inl TruncatedInput
      | b # bs \<Rightarrow> Inr (b, s\<lparr>rest := bs, position := position s + 1\<rparr>))"

definition read_bit :: "'a stream_scheme \<Rightarrow> DecodeError + (bool \<times> 'a stream_scheme)" where
  "read_bit s =
     (case unused_bits s of
        b # bs \<Rightarrow> Inr (b, s\<lparr>unused_bits := bs\<rparr>)
      | [] \<Rightarrow> bnd (read_byte s) (\<lambda>(x, s').
          Inr (bit x 7, s'\<lparr>unused_bits := map (bit x) [6, 5, 4, 3, 2, 1, 0]\<rparr>)))"

fun read_uint_acc :: "nat \<Rightarrow> nat \<Rightarrow> 'a stream_scheme \<Rightarrow> DecodeError + (nat \<times> 'a stream_scheme)" where
  "read_uint_acc 0 acc s = Inr (acc, s)"
| "read_uint_acc (Suc n) acc s =
     bnd (read_bit s) (\<lambda>(b, s'). read_uint_acc n (2 * acc + (if b then 1 else 0)) s')"

definition read_uint :: "nat \<Rightarrow> 'a stream_scheme \<Rightarrow> DecodeError + (nat \<times> 'a stream_scheme)" where
  "read_uint bitcount s = read_uint_acc bitcount 0 s"

definition read_u8 :: "'a stream_scheme \<Rightarrow> DecodeError + (byte \<times> 'a stream_scheme)" where
  "read_u8 s = read_byte (align s)"

definition le16 :: "byte \<Rightarrow> byte \<Rightarrow> 16 word" where
  "le16 b0 b1 = ucast b0 OR push_bit 8 (ucast b1)"

definition le32 :: "byte \<Rightarrow> byte \<Rightarrow> byte \<Rightarrow> byte \<Rightarrow> 32 word" where
  "le32 b0 b1 b2 b3 =
     ucast b0 OR push_bit 8 (ucast b1) OR push_bit 16 (ucast b2) OR push_bit 24 (ucast b3)"

definition read_u16 :: "'a stream_scheme \<Rightarrow> DecodeError + (16 word \<times> 'a stream_scheme)" where
  "read_u16 s =
     bnd (read_u8 s) (\<lambda>(b0, s0).
     bnd (read_u8 s0) (\<lambda>(b1, s1).
     Inr (le16 b0 b1, s1)))"

definition read_u32 :: "'a stream_scheme \<Rightarrow> DecodeError + (32 word \<times> 'a stream_scheme)" where
  "read_u32 s =
     bnd (read_u8 s) (\<lambda>(b0, s0).
     bnd (read_u8 s0) (\<lambda>(b1, s1).
     bnd (read_u8 s1) (\<lambda>(b2, s2).
     bnd (read_u8 s2) (\<lambda>(b3, s3).
     Inr (le32 b0 b1 b2 b3, s3)))))"

text \<open>\<open>read_string\<close>: the bytes up to the terminating zero, which is consumed too.\<close>

fun cstring :: "byte list \<Rightarrow> (byte list \<times> byte list) option" where
  "cstring [] = None"
| "cstring (b # bs) =
     (if b = 0 then Some ([], bs)
      else (case cstring bs of None \<Rightarrow> None | Some (str, r) \<Rightarrow> Some (b # str, r)))"

definition read_string :: "'a stream_scheme \<Rightarrow> DecodeError + (byte list \<times> 'a stream_scheme)" where
  "read_string s =
     (case cstring (rest s) of
        None \<Rightarrow> Inl TruncatedInput
      | Some (str, _) \<Rightarrow>
          Inr (str, advance (length str + 1) s))"

text \<open>
  \<open>skip_bytes\<close> has the source's interface: it returns false, and moves nothing, when
  fewer than \<open>num\<close> bytes remain.
\<close>

definition skip_bytes :: "nat \<Rightarrow> 'a stream_scheme \<Rightarrow> bool \<times> 'a stream_scheme" where
  "skip_bytes num s =
     (if num \<le> length (rest s)
      then (True, advance num s)
      else (False, align s))"

section \<open>Collaborators\<close>

text \<open>
  The readers of the matrix (\<open>matrix::read\<close>), of the colour transform
  (\<open>cxform::read_rgb\<close>, \<open>cxform::read_rgba\<close>), of the filter list
  (\<open>filter_factory::read\<close>) and of the action block (\<open>action_buffer::read\<close>), the
  constants of \<open>character\<close> and \<open>key\<close>, and the switch behind
  \<open>IF_VERBOSE_MALFORMED_SWF\<close> live in files that are not under src/. They are
  parameters of the decoder. A reader is given the bytes between the cursor and the end
  of the tag and answers with its value and the number of bytes it consumed (the cursor
  is forward-only); \<open>call_reader\<close> runs it on the cursor and leaves the cursor on a
  byte boundary (every read that follows one in the source aligns first).

  Modelled from the spec: what \<open>action_buffer::read\<close> keeps. Section 4.3, step 6, and
  section 6 of the specification: the action payload is a byte range captured from the
  input. The value of the action reader is therefore the run of bytes it consumed; how
  many bytes that is, is the parameter \<open>action_buffer_read\<close>.
\<close>

record ('m, 'c) collaborators =
  staticDepthOffset :: int
  noRatioValue :: int
  noClipDepthValue :: int
  key_INVALID :: byte
  key_CONTROL :: byte
  verbose_malformed_swf :: bool
  matrix_read :: "byte list \<Rightarrow> DecodeError + ('m \<times> nat)"
  cxform_read_rgb :: "byte list \<Rightarrow> DecodeError + ('c \<times> nat)"
  cxform_read_rgba :: "byte list \<Rightarrow> DecodeError + ('c \<times> nat)"
  filter_factory_read :: "int \<Rightarrow> byte list \<Rightarrow> DecodeError + (unit \<times> nat)"
  action_buffer_read :: "byte list \<Rightarrow> DecodeError + nat"

definition call_reader ::
  "(byte list \<Rightarrow> DecodeError + ('v \<times> nat)) \<Rightarrow> 'a stream_scheme \<Rightarrow>
   DecodeError + ('v \<times> 'a stream_scheme)" where
  "call_reader f s =
     bnd (f (rest s)) (\<lambda>(v, n).
       if n \<le> length (rest s)
       then Inr (v, advance n s)
       else Inl TruncatedInput)"

definition action_read ::
  "('m, 'c) collaborators \<Rightarrow> 'a stream_scheme \<Rightarrow> DecodeError + (byte list \<times> 'a stream_scheme)" where
  "action_read E s =
     call_reader (\<lambda>bs. bnd (action_buffer_read E bs) (\<lambda>n. Inr (take n bs, n))) s"

text \<open>\<open>IF_VERBOSE_MALFORMED_SWF(log_swferror(...))\<close>\<close>

definition log_swferror :: "('m, 'c) collaborators \<Rightarrow> log_msg \<Rightarrow> parse_state \<Rightarrow> parse_state" where
  "log_swferror E msg s = (if verbose_malformed_swf E then s\<lparr>log := log s @ [msg]\<rparr> else s)"

section \<open>The placement tag\<close>

datatype tag_type = PLACEOBJECT | PLACEOBJECT2 | PLACEOBJECT3 | OTHER_TAG nat

datatype place_type = PLACE | MOVE | REPLACE | REMOVE

datatype id_code =
    LOAD | ENTER_FRAME | UNLOAD | MOUSE_MOVE | MOUSE_DOWN | MOUSE_UP | KEY_DOWN | KEY_UP
  | DATA | INITIALIZE | PRESS | RELEASE | RELEASE_OUTSIDE | ROLL_OVER | ROLL_OUT | DRAG_OVER
  | DRAG_OUT | KEY_PRESS | CONSTRUCT

text \<open>
  Modelled from the spec: \<open>event_id\<close> and \<open>swf_event\<close> (event_id.h, swf_event.h) are not
  under src/. Section 3 of the specification: an EventRegistration is an event kind, the
  captured byte range and an optional key code. The byte range of a registration is the
  \<open>action_buffer\<close> pointer its constructor was given: the address of a buffer in
  \<open>action_buffers\<close>, or \<open>None\<close> for a null pointer.
\<close>

record event_id =
  m_id :: id_code
  m_key_code :: byte

record swf_event =
  m_event :: event_id
  m_action_buffer :: "nat option"

record ('m, 'c) PlaceObject2Tag =
  m_tag_type :: tag_type
  m_name :: "byte list option"
  m_ratio :: int
  m_color_transform :: 'c
  m_matrix :: 'm
  m_has_matrix :: bool
  m_has_cxform :: bool
  m_depth :: int
  m_character_id :: "16 word"
  m_clip_depth :: int
  m_place_type :: place_type
  all_event_flags :: "32 word"
  m_event_handlers :: "swf_event list"

text \<open>A reader works on the record being filled and on the state of the input.\<close>

type_synonym ('m, 'c) reading = "('m, 'c) PlaceObject2Tag \<times> parse_state"

subsection \<open>readPlaceObject: the legacy tag\<close>

definition readPlaceObject ::
  "('m, 'c) collaborators \<Rightarrow> ('m, 'c) PlaceObject2Tag \<times> parse_state \<Rightarrow>
   DecodeError + (('m, 'c) PlaceObject2Tag \<times> parse_state)" where
  "readPlaceObject E = (\<lambda>(t, s).
     bnd (read_u16 s) (\<lambda>(cid, s1).
     bnd (read_u16 s1) (\<lambda>(d, s2).
     bnd (call_reader (matrix_read E) s2) (\<lambda>(mx, s3).
     let t3 = t\<lparr>m_character_id := cid, m_depth := uint d + staticDepthOffset E, m_matrix := mx\<rparr>
     in if get_position s3 < get_tag_end_position s3
        then bnd (call_reader (cxform_read_rgb E) s3) (\<lambda>(cx, s4).
               Inr (t3\<lparr>m_color_transform := cx\<rparr>, s4))
        else Inr (t3, s3)))))"

subsection \<open>readPlaceActions: the event table\<close>

text \<open>\<open>(movie_version >= 6) ? in->read_u32() : in->read_u16()\<close>\<close>

definition read_event_flags :: "int \<Rightarrow> 'a stream_scheme \<Rightarrow> DecodeError + (32 word \<times> 'a stream_scheme)" where
  "read_event_flags movie_version s =
     (if movie_version \<ge> 6 then read_u32 s
      else bnd (read_u16 s) (\<lambda>(w, s'). Inr (ucast w, s')))"

definition total_known_events :: nat where
  "total_known_events = 19"

definition s_code_bits :: "('m, 'c) collaborators \<Rightarrow> event_id list" where
  "s_code_bits E =
     map (\<lambda>c. \<lparr>m_id = c, m_key_code = key_INVALID E\<rparr>)
       [LOAD, ENTER_FRAME, UNLOAD, MOUSE_MOVE, MOUSE_DOWN, MOUSE_UP, KEY_DOWN, KEY_UP,
        DATA, INITIALIZE, PRESS, RELEASE, RELEASE_OUTSIDE, ROLL_OVER, ROLL_OUT, DRAG_OVER,
        DRAG_OUT]
     @ [\<lparr>m_id = KEY_PRESS, m_key_code = key_CONTROL E\<rparr>,
        \<lparr>m_id = CONSTRUCT, m_key_code = key_INVALID E\<rparr>]"

text \<open>
  \<open>new swf_event(s_code_bits[i], action)\<close>, followed by \<open>setKeyCode(ch)\<close> when \<open>i\<close> is
  17. \<open>action\<close> is what the round's \<open>std::auto_ptr<action_buffer>\<close> holds at the
  moment of the call.
\<close>

definition new_swf_event ::
  "('m, 'c) collaborators \<Rightarrow> byte \<Rightarrow> nat option \<Rightarrow> nat \<Rightarrow> swf_event" where
  "new_swf_event E ch action i =
     (let ev = \<lparr>m_event = s_code_bits E ! i, m_action_buffer = action\<rparr>
      in if i = 17 then ev\<lparr>m_event := (m_event ev)\<lparr>m_key_code := ch\<rparr>\<rparr> else ev)"

text \<open>
  The loop over the known bits, \<open>i\<close> from 0 to 18 with \<open>mask = 1 << i\<close>, here over the
  list of the positions still to visit: one \<open>swf_event\<close> is pushed for each bit of
  \<open>flags\<close> that is set. The state of the loop is what the \<open>auto_ptr\<close> holds and the
  vector \<open>m_event_handlers\<close>. A \<open>std::auto_ptr\<close> gives its pointer away when it is
  passed on, so the first \<open>swf_event\<close> built in a round takes the buffer and the
  \<open>auto_ptr\<close> is null from then on.
\<close>

fun known_event_handlers ::
  "('m, 'c) collaborators \<Rightarrow> 32 word \<Rightarrow> byte \<Rightarrow> nat list \<Rightarrow>
   nat option \<times> swf_event list \<Rightarrow> nat option \<times> swf_event list" where
  "known_event_handlers E flags ch [] (action, handlers) = (action, handlers)"
| "known_event_handlers E flags ch (i # js) (action, handlers) =
     (if flags AND push_bit i 1 \<noteq> 0
      then known_event_handlers E flags ch js
             (None, handlers @ [new_swf_event E ch action i])
      else known_event_handlers E flags ch js (action, handlers))"

datatype 'a loop_exit = Break 'a | Continue 'a

text \<open>
  \<open>if (flags & (1 << 17)) { ch = in->read_u8(); event_length--; }\<close>, with
  \<open>ch = key::INVALID\<close> before it; \<open>event_length\<close> is a \<open>uint32_t\<close> and wraps.
\<close>

definition read_key_code ::
  "('m, 'c) collaborators \<Rightarrow> 32 word \<Rightarrow> 32 word \<Rightarrow> 'a stream_scheme \<Rightarrow>
   DecodeError + ((byte \<times> 32 word) \<times> 'a stream_scheme)" where
  "read_key_code E flags event_length s =
     (if flags AND push_bit 17 1 \<noteq> 0
      then bnd (read_u8 s) (\<lambda>(ch, s'). Inr ((ch, event_length - 1), s'))
      else Inr ((key_INVALID E, event_length), s))"

text \<open>
  \<open>else if (readlen < event_length)\<close>: log, then \<open>in->skip_bytes(event_length - readlen)\<close>;
  the boolean is false when the skipping failed.
\<close>

definition skip_excess ::
  "('m, 'c) collaborators \<Rightarrow> 32 word \<Rightarrow> nat \<Rightarrow> parse_state \<Rightarrow> bool \<times> parse_state" where
  "skip_excess E event_length readlen s =
     (if readlen < unat event_length
      then skip_bytes (unat event_length - readlen)
             (log_swferror E (SkippingExcessiveBytes event_length readlen) s)
      else (True, s))"

text \<open>\<open>if (flags >> total_known_events)\<close>: the reserved bits should be zero.\<close>

definition check_reserved_bits :: "('m, 'c) collaborators \<Rightarrow> 32 word \<Rightarrow> parse_state \<Rightarrow> parse_state" where
  "check_reserved_bits E flags s =
     (if drop_bit total_known_events flags \<noteq> 0
      then log_swferror E (UnknownEventType flags) s else s)"

text \<open>
  The end of a round. The action buffer, allocated with \<open>new\<close>, has the next free
  address, and the round's \<open>auto_ptr\<close> holds it when the loop over the known bits starts.
  When the round ends the \<open>auto_ptr\<close> goes out of scope: if it still holds the buffer,
  no \<open>swf_event\<close> having taken it, the buffer is deleted; otherwise the buffer stays.
\<close>

definition push_event_handlers ::
  "('m, 'c) collaborators \<Rightarrow> 32 word \<Rightarrow> byte \<Rightarrow> byte list \<Rightarrow>
   ('m, 'c) PlaceObject2Tag \<times> parse_state \<Rightarrow> ('m, 'c) PlaceObject2Tag \<times> parse_state" where
  "push_event_handlers E flags ch action = (\<lambda>(t, s).
     case known_event_handlers E flags ch [0 ..< total_known_events]
            (Some (length (action_buffers s)), m_event_handlers t) of
       (held, handlers) \<Rightarrow>
         (t\<lparr>m_event_handlers := handlers\<rparr>,
          if held = None then s\<lparr>action_buffers := action_buffers s @ [action]\<rparr> else s))"

text \<open>
  One round of the \<open>for (;;)\<close> loop of readPlaceActions. The \<open>auto_ptr\<close> frees the
  action buffer on every \<open>break\<close>, so a buffer can enter \<open>action_buffers\<close> only when
  the round runs to its end.
\<close>

definition readPlaceActions_event ::
  "('m, 'c) collaborators \<Rightarrow> int \<Rightarrow> ('m, 'c) PlaceObject2Tag \<times> parse_state \<Rightarrow>
   DecodeError + (('m, 'c) PlaceObject2Tag \<times> parse_state) loop_exit" where
  "readPlaceActions_event E movie_version = (\<lambda>(t, s).
     bnd (read_event_flags movie_version (align s)) (\<lambda>(flags, s1).
     if flags = 0 then Inr (Break (t, s1))
     else
     bnd (read_u32 s1) (\<lambda>(event_length, s2).
     if get_tag_end_position s2 - get_position s2 < unat event_length
     then Inr (Break (t, log_swferror E
            (EventLengthBeyondTag event_length (get_tag_end_position s2 - get_position s2)) s2))
     else
     bnd (read_key_code E flags event_length s2) (\<lambda>((ch, event_length), s3).
     bnd (action_read E s3) (\<lambda>(action, s4).
     if length action > unat event_length
     then Inr (Break (t, log_swferror E
            (ReadMoreThanEventLength event_length (length action)) s4))
     else
       (case skip_excess E event_length (length action) s4 of (skipped, s5) \<Rightarrow>
          if \<not> skipped
          then Inr (Break (t, log_swferror E BytesSkippingFailed s5))
          else Inr (Continue
                 (push_event_handlers E flags ch action (t, check_reserved_bits E flags s5)))))))))"

text \<open>Every completed round consumes input, so the loop terminates.\<close>

lemma bnd_Inl [simp]: "bnd (Inl e) f = Inl e"
  by (simp add: bnd_def)

lemma bnd_Inr [simp]: "bnd (Inr x) f = f x"
  by (simp add: bnd_def)

lemma bnd_eq_Inr: "bnd m f = Inr r \<longleftrightarrow> (\<exists>x. m = Inr x \<and> f x = Inr r)"
  by (cases m) simp_all

lemma bndE: "bnd m f = Inr r \<Longrightarrow> (\<And>x. m = Inr x \<Longrightarrow> f x = Inr r \<Longrightarrow> P) \<Longrightarrow> P"
  by (cases m) simp_all

lemma rest_align [simp]: "rest (align s) = rest s"
  and position_align [simp]: "position (align s) = position s"
  and unused_bits_align [simp]: "unused_bits (align s) = []"
  and align_align [simp]: "align (align s) = align s"
  by (simp_all add: align_def)

lemma rest_advance [simp]: "rest (advance n s) = drop n (rest s)"
  and position_advance [simp]: "position (advance n s) = position s + n"
  and unused_bits_advance [simp]: "unused_bits (advance n s) = []"
  and align_advance [simp]: "align (advance n s) = advance n s"
  and advance_align [simp]: "advance n (align s) = advance n s"
  by (simp_all add: advance_def align_def)

lemma advance_advance [simp]: "advance m (advance n s) = advance (n + m) s"
  by (simp add: advance_def align_def add.assoc add.commute)

lemma parse_state_align [simp]:
  "action_buffers (align p) = action_buffers p" "log (align p) = log p"
  by (simp_all add: align_def)

lemma parse_state_advance [simp]:
  "action_buffers (advance n p) = action_buffers p" "log (advance n p) = log p"
  by (simp_all add: advance_def align_def)

lemma read_u8_eq:
  "read_u8 s = (case rest s of [] \<Rightarrow> Inl TruncatedInput | b # bs \<Rightarrow> Inr (b, advance 1 s))"
  by (simp add: read_u8_def read_byte_def advance_def align_def split: list.split)

lemma read_u16_eq:
  "read_u16 s =
     (case rest s of b0 # b1 # bs \<Rightarrow> Inr (le16 b0 b1, advance 2 s) | _ \<Rightarrow> Inl TruncatedInput)"
  by (simp add: read_u16_def read_u8_eq eval_nat_numeral split: list.split)

lemma read_u32_eq:
  "read_u32 s =
     (case rest s of b0 # b1 # b2 # b3 # bs \<Rightarrow> Inr (le32 b0 b1 b2 b3, advance 4 s)
      | _ \<Rightarrow> Inl TruncatedInput)"
  by (simp add: read_u32_def read_u8_eq eval_nat_numeral split: list.split)

lemma read_u8_less: "read_u8 s = Inr (b, s') \<Longrightarrow> length (rest s') < length (rest s)"
  by (auto simp: read_u8_eq split: list.splits)

lemma read_u16_less: "read_u16 s = Inr (b, s') \<Longrightarrow> length (rest s') < length (rest s)"
  by (auto simp: read_u16_eq split: list.splits)

lemma read_u32_less: "read_u32 s = Inr (b, s') \<Longrightarrow> length (rest s') < length (rest s)"
  by (auto simp: read_u32_eq split: list.splits)

lemma read_event_flags_less:
  "read_event_flags v s = Inr (b, s') \<Longrightarrow> length (rest s') < length (rest s)"
  by (auto simp: read_event_flags_def bnd_eq_Inr split: if_splits
           dest: read_u16_less read_u32_less)

lemma call_reader_le: "call_reader f s = Inr (v, s') \<Longrightarrow> length (rest s') \<le> length (rest s)"
  by (auto simp: call_reader_def bnd_eq_Inr split: if_splits)

lemma action_read_le: "action_read E s = Inr (v, s') \<Longrightarrow> length (rest s') \<le> length (rest s)"
  unfolding action_read_def by (rule call_reader_le)

lemma skip_bytes_le: "skip_bytes n s = (ok, s') \<Longrightarrow> length (rest s') \<le> length (rest s)"
  by (auto simp: skip_bytes_def split: if_splits)

lemma stream_log_swferror [simp]:
  "rest (log_swferror E msg s) = rest s"
  "position (log_swferror E msg s) = position s"
  "unused_bits (log_swferror E msg s) = unused_bits s"
  "action_buffers (log_swferror E msg s) = action_buffers s"
  by (simp_all add: log_swferror_def)

lemma read_key_code_le:
  "read_key_code E flags n s = Inr (r, s') \<Longrightarrow> length (rest s') \<le> length (rest s)"
  by (auto simp: read_key_code_def bnd_eq_Inr split: if_splits dest: read_u8_less)

lemma skip_excess_le:
  "skip_excess E n k s = (ok, s') \<Longrightarrow> length (rest s') \<le> length (rest s)"
  by (auto simp: skip_excess_def split: if_splits dest: skip_bytes_le)

lemma rest_check_reserved_bits [simp]: "rest (check_reserved_bits E flags s) = rest s"
  by (simp add: check_reserved_bits_def)

lemma known_event_handlers_append:
  "\<exists>evs. snd (known_event_handlers E flags ch js (held, handlers)) = handlers @ evs"
proof (induction js arbitrary: held handlers)
  case Nil
  then show ?case by simp
next
  case (Cons i js)
  show ?case
  proof (cases "flags AND push_bit i 1 \<noteq> 0")
    case True
    from Cons [of None "handlers @ [new_swf_event E ch held i]"] obtain evs where
      "snd (known_event_handlers E flags ch js (None, handlers @ [new_swf_event E ch held i])) =
         (handlers @ [new_swf_event E ch held i]) @ evs"
      by blast
    with True show ?thesis by simp
  next
    case False
    with Cons [of held handlers] show ?thesis by simp
  qed
qed

lemma push_event_handlers_stream:
  assumes "push_event_handlers E flags ch action (t, s) = (t', s')"
  shows "rest s' = rest s" "position s' = position s" "unused_bits s' = unused_bits s"
    "log s' = log s"
  using assms by (auto simp: push_event_handlers_def split: prod.splits if_splits)

lemma push_event_handlers_tag:
  assumes "push_event_handlers E flags ch action (t, s) = (t', s')"
  shows "\<exists>evs. t' = t\<lparr>m_event_handlers := m_event_handlers t @ evs\<rparr>"
proof -
  obtain held handlers where
    k: "known_event_handlers E flags ch [0 ..< total_known_events]
          (Some (length (action_buffers s)), m_event_handlers t) = (held, handlers)"
    by (cases "known_event_handlers E flags ch [0 ..< total_known_events]
          (Some (length (action_buffers s)), m_event_handlers t)")
  from known_event_handlers_append
    [of E flags ch "[0 ..< total_known_events]" "Some (length (action_buffers s))"
      "m_event_handlers t"] k
  obtain evs where "handlers = m_event_handlers t @ evs" by auto
  with assms k show ?thesis
    by (auto simp: push_event_handlers_def)
qed

lemma readPlaceActions_event_Continue:
  "readPlaceActions_event E v (t, s) = Inr (Continue (t', s')) \<longleftrightarrow>
   (\<exists>flags s1 declared s2 ch len s3 action s4 s5.
      read_event_flags v (align s) = Inr (flags, s1) \<and> flags \<noteq> 0 \<and>
      read_u32 s1 = Inr (declared, s2) \<and>
      \<not> (get_tag_end_position s2 - get_position s2 < unat declared) \<and>
      read_key_code E flags declared s2 = Inr ((ch, len), s3) \<and>
      action_read E s3 = Inr (action, s4) \<and> length action \<le> unat len \<and>
      skip_excess E len (length action) s4 = (True, s5) \<and>
      (t', s') = push_event_handlers E flags ch action (t, check_reserved_bits E flags s5))"
  (is "?L \<longleftrightarrow> ?R")
proof
  assume ?L
  then show ?R
    unfolding readPlaceActions_event_def
    apply (simp only: prod.case)
    apply (erule bndE, clarsimp split: if_splits)
    apply (erule bndE, clarsimp split: if_splits)
    apply (erule bndE, clarsimp split: if_splits)
    apply (erule bndE, clarsimp split: if_splits prod.splits)
    done
next
  assume ?R
  then show ?L
    unfolding readPlaceActions_event_def by (auto simp: not_less)
qed

lemma readPlaceActions_event_less:
  assumes "readPlaceActions_event E v (t, s) = Inr (Continue (t', s'))"
  shows "length (rest s') < length (rest s)"
proof -
  from assms obtain flags s1 declared s2 ch len s3 action s4 s5 where
    1: "read_event_flags v (align s) = Inr (flags, s1)" and
    2: "read_u32 s1 = Inr (declared, s2)" and
    3: "read_key_code E flags declared s2 = Inr ((ch, len), s3)" and
    4: "action_read E s3 = Inr (action, s4)" and
    5: "skip_excess E len (length action) s4 = (True, s5)" and
    6: "(t', s') = push_event_handlers E flags ch action (t, check_reserved_bits E flags s5)"
    unfolding readPlaceActions_event_Continue by blast
  from push_event_handlers_stream(1) [OF 6 [symmetric]] have "rest s' = rest s5"
    by simp
  with read_event_flags_less [OF 1] read_u32_less [OF 2] read_key_code_le [OF 3]
    action_read_le [OF 4] skip_excess_le [OF 5]
  show ?thesis by simp
qed

function readPlaceActions_loop ::
  "('m, 'c) collaborators \<Rightarrow> int \<Rightarrow> ('m, 'c) PlaceObject2Tag \<times> parse_state \<Rightarrow>
   DecodeError + (('m, 'c) PlaceObject2Tag \<times> parse_state)" where
  "readPlaceActions_loop E movie_version ts =
     (case readPlaceActions_event E movie_version ts of
        Inl e \<Rightarrow> Inl e
      | Inr (Break r) \<Rightarrow> Inr r
      | Inr (Continue ts') \<Rightarrow> readPlaceActions_loop E movie_version ts')"
  by pat_completeness auto
termination
proof (relation "measure (\<lambda>(E, v, t, s). length (rest s))")
  fix E :: "('m, 'c) collaborators" and movie_version ts x2 x2a
  assume "readPlaceActions_event E movie_version ts = Inr x2" and "x2 = Continue x2a"
  then show "((E, movie_version, x2a), E, movie_version, ts)
      \<in> measure (\<lambda>(E, v, t, s). length (rest s))"
    by (cases ts, cases x2a) (auto dest: readPlaceActions_event_less)
qed simp

declare readPlaceActions_loop.simps [simp del]

definition readPlaceActions ::
  "('m, 'c) collaborators \<Rightarrow> int \<Rightarrow> ('m, 'c) PlaceObject2Tag \<times> parse_state \<Rightarrow>
   DecodeError + (('m, 'c) PlaceObject2Tag \<times> parse_state)" where
  "readPlaceActions E movie_version = (\<lambda>(t, s).
     bnd (read_u16 s) (\<lambda>(reserved, s1).
     let s2 = (if reserved \<noteq> 0
               then log_swferror E (ReservedFieldNonzero reserved) s1 else s1)
     in bnd (read_event_flags movie_version s2) (\<lambda>(flags, s3).
        readPlaceActions_loop E movie_version (t\<lparr>all_event_flags := flags\<rparr>, s3))))"

text \<open>
  \<open>run_rounds n\<close> is the state of the loop after \<open>n\<close> rounds that all ran to their end;
  it is used to speak about the entries decoded before a given one.
\<close>

fun run_rounds ::
  "('m, 'c) collaborators \<Rightarrow> int \<Rightarrow> nat \<Rightarrow> ('m, 'c) reading \<Rightarrow> ('m, 'c) reading option" where
  "run_rounds E v 0 ts = Some ts"
| "run_rounds E v (Suc n) ts =
     (case readPlaceActions_event E v ts of
        Inr (Continue ts') \<Rightarrow> run_rounds E v n ts'
      | _ \<Rightarrow> None)"

subsection \<open>readPlaceObject2: the extended tags\<close>

record place_flags =
  has_actions :: bool
  has_clip_bracket :: bool
  has_name :: bool
  has_ratio :: bool
  has_cxform :: bool
  has_matrix :: bool
  has_char :: bool
  flag_move :: bool
  has_bitmap_caching :: bool
  has_blend_mode :: bool
  has_filters :: bool

text \<open>
  The flag bits at the head of the tag: eight \<open>read_bit\<close> calls, then, for PlaceObject3
  from version 8 on, \<open>read_uint(5)\<close> and three more; the three are false otherwise.
\<close>

definition readPlaceObject2_flags ::
  "int \<Rightarrow> bool \<Rightarrow> 'a stream_scheme \<Rightarrow> DecodeError + (place_flags \<times> 'a stream_scheme)" where
  "readPlaceObject2_flags movie_version place_2 s =
     bnd (read_bit s) (\<lambda>(actions, s1).
     bnd (read_bit s1) (\<lambda>(clip_bracket, s2).
     bnd (read_bit s2) (\<lambda>(name, s3).
     bnd (read_bit s3) (\<lambda>(ratio, s4).
     bnd (read_bit s4) (\<lambda>(cxform, s5).
     bnd (read_bit s5) (\<lambda>(matrix, s6).
     bnd (read_bit s6) (\<lambda>(char, s7).
     bnd (read_bit s7) (\<lambda>(move, s8).
     let f = \<lparr>has_actions = actions, has_clip_bracket = clip_bracket, has_name = name,
              has_ratio = ratio, has_cxform = cxform, has_matrix = matrix, has_char = char,
              flag_move = move, has_bitmap_caching = False, has_blend_mode = False,
              has_filters = False\<rparr>
     in if \<not> place_2 \<and> movie_version \<ge> 8
        then
          bnd (read_uint 5 s8) (\<lambda>(_, s9).
          bnd (read_bit s9) (\<lambda>(bitmap_caching, s10).
          bnd (read_bit s10) (\<lambda>(blend_mode, s11).
          bnd (read_bit s11) (\<lambda>(filters, s12).
          Inr (f\<lparr>has_bitmap_caching := bitmap_caching, has_blend_mode := blend_mode,
                 has_filters := filters\<rparr>, s12)))))
        else Inr (f, s8)))))))))"

text \<open>The statements that follow the flags, one definition for each, in the source's order.\<close>

definition po2_depth ::
  "('m, 'c) collaborators \<Rightarrow> ('m, 'c) reading \<Rightarrow> DecodeError + ('m, 'c) reading" where
  "po2_depth E = (\<lambda>(t, s).
     bnd (read_u16 s) (\<lambda>(d, s'). Inr (t\<lparr>m_depth := uint d + staticDepthOffset E\<rparr>, s')))"

definition po2_character_id ::
  "bool \<Rightarrow> ('m, 'c) reading \<Rightarrow> DecodeError + ('m, 'c) reading" where
  "po2_character_id present = (\<lambda>(t, s).
     if present
     then bnd (read_u16 s) (\<lambda>(cid, s'). Inr (t\<lparr>m_character_id := cid\<rparr>, s'))
     else Inr (t, s))"

definition po2_matrix ::
  "('m, 'c) collaborators \<Rightarrow> bool \<Rightarrow> ('m, 'c) reading \<Rightarrow> DecodeError + ('m, 'c) reading" where
  "po2_matrix E present = (\<lambda>(t, s).
     if present
     then bnd (call_reader (matrix_read E) s) (\<lambda>(mx, s').
            Inr (t\<lparr>m_has_matrix := True, m_matrix := mx\<rparr>, s'))
     else Inr (t, s))"

definition po2_cxform ::
  "('m, 'c) collaborators \<Rightarrow> bool \<Rightarrow> ('m, 'c) reading \<Rightarrow> DecodeError + ('m, 'c) reading" where
  "po2_cxform E present = (\<lambda>(t, s).
     if present
     then bnd (call_reader (cxform_read_rgba E) s) (\<lambda>(cx, s').
            Inr (t\<lparr>m_has_cxform := True, m_color_transform := cx\<rparr>, s'))
     else Inr (t, s))"

definition po2_ratio ::
  "('m, 'c) collaborators \<Rightarrow> bool \<Rightarrow> ('m, 'c) reading \<Rightarrow> DecodeError + ('m, 'c) reading" where
  "po2_ratio E present = (\<lambda>(t, s).
     if present
     then bnd (read_u16 s) (\<lambda>(r, s'). Inr (t\<lparr>m_ratio := uint r\<rparr>, s'))
     else Inr (t\<lparr>m_ratio := noRatioValue E\<rparr>, s))"

definition po2_name ::
  "bool \<Rightarrow> ('m, 'c) reading \<Rightarrow> DecodeError + ('m, 'c) reading" where
  "po2_name present = (\<lambda>(t, s).
     if present
     then bnd (read_string s) (\<lambda>(str, s'). Inr (t\<lparr>m_name := Some str\<rparr>, s'))
     else Inr (t, s))"

definition po2_clip_depth ::
  "('m, 'c) collaborators \<Rightarrow> bool \<Rightarrow> ('m, 'c) reading \<Rightarrow> DecodeError + ('m, 'c) reading" where
  "po2_clip_depth E present = (\<lambda>(t, s).
     if present
     then bnd (read_u16 s) (\<lambda>(d, s').
            Inr (t\<lparr>m_clip_depth := uint d + staticDepthOffset E\<rparr>, s'))
     else Inr (t\<lparr>m_clip_depth := noClipDepthValue E\<rparr>, s))"

text \<open>The filters are read into a local variable and dropped.\<close>

definition po2_filters ::
  "('m, 'c) collaborators \<Rightarrow> int \<Rightarrow> bool \<Rightarrow> ('m, 'c) reading \<Rightarrow> DecodeError + ('m, 'c) reading" where
  "po2_filters E movie_version present = (\<lambda>(t, s).
     if present
     then bnd (call_reader (filter_factory_read E movie_version) s) (\<lambda>(_, s'). Inr (t, s'))
     else Inr (t, s))"

text \<open>\<open>blend_mode\<close> and \<open>bitmask\<close> are local variables: one byte each, read and dropped.\<close>

definition po2_discard_u8 ::
  "bool \<Rightarrow> ('m, 'c) reading \<Rightarrow> DecodeError + ('m, 'c) reading" where
  "po2_discard_u8 present = (\<lambda>(t, s).
     if present
     then bnd (read_u8 s) (\<lambda>(_, s'). Inr (t, s'))
     else Inr (t, s))"

definition po2_actions ::
  "('m, 'c) collaborators \<Rightarrow> int \<Rightarrow> bool \<Rightarrow> ('m, 'c) reading \<Rightarrow> DecodeError + ('m, 'c) reading" where
  "po2_actions E movie_version present ts =
     (if present then readPlaceActions E movie_version ts else Inr ts)"

text \<open>The chain of comparisons that ends readPlaceObject2.\<close>

definition po2_place_type :: "bool \<Rightarrow> bool \<Rightarrow> ('m, 'c) PlaceObject2Tag \<Rightarrow> ('m, 'c) PlaceObject2Tag" where
  "po2_place_type char move t =
     (if char = True \<and> move = True then t\<lparr>m_place_type := REPLACE\<rparr>
      else if char = False \<and> move = True then t\<lparr>m_place_type := MOVE\<rparr>
      else if char = True \<and> move = False then t\<lparr>m_place_type := PLACE\<rparr>
      else if char = False \<and> move = False then t\<lparr>m_place_type := REMOVE\<rparr>
      else t)"

definition readPlaceObject2 ::
  "('m, 'c) collaborators \<Rightarrow> int \<Rightarrow> bool \<Rightarrow> ('m, 'c) reading \<Rightarrow> DecodeError + ('m, 'c) reading" where
  "readPlaceObject2 E movie_version place_2 = (\<lambda>(t, s).
     bnd (readPlaceObject2_flags movie_version place_2 (align s)) (\<lambda>(f, s0).
     bnd (po2_depth E (t, s0)) (\<lambda>ts.
     bnd (po2_character_id (has_char f) ts) (\<lambda>ts.
     bnd (po2_matrix E (has_matrix f) ts) (\<lambda>ts.
     bnd (po2_cxform E (has_cxform f) ts) (\<lambda>ts.
     bnd (po2_ratio E (has_ratio f) ts) (\<lambda>ts.
     bnd (po2_name (has_name f) ts) (\<lambda>ts.
     bnd (po2_clip_depth E (has_clip_bracket f) ts) (\<lambda>ts.
     bnd (po2_filters E movie_version (has_filters f) ts) (\<lambda>ts.
     bnd (po2_discard_u8 (has_blend_mode f) ts) (\<lambda>ts.
     bnd (po2_discard_u8 (has_bitmap_caching f) ts) (\<lambda>ts.
     bnd (po2_actions E movie_version (has_actions f) ts) (\<lambda>(t', s').
     Inr (po2_place_type (has_char f) (flag_move f) t', s'))))))))))))))"

subsection \<open>read and loader\<close>

definition read ::
  "('m, 'c) collaborators \<Rightarrow> tag_type \<Rightarrow> int \<Rightarrow> ('m, 'c) reading \<Rightarrow> DecodeError + ('m, 'c) reading" where
  "read E tag movie_version = (\<lambda>(t, s).
     let t0 = t\<lparr>m_tag_type := tag\<rparr>
     in if tag = PLACEOBJECT then readPlaceObject E (t0, s)
        else readPlaceObject2 E movie_version (if tag = PLACEOBJECT3 then False else True) (t0, s))"

text \<open>
  Modelled from the spec: \<open>movie_definition\<close> is not under src/. Section 6 of the
  specification: the timeline bookkeeping records which depths are used over the
  animation's lifetime. The model keeps the format version, the execute tags added so
  far and the depths registered so far.
\<close>

record ('m, 'c) movie_definition =
  get_version :: int
  execute_tags :: "('m, 'c) PlaceObject2Tag list"
  timeline_depths :: "int list"

definition add_execute_tag ::
  "('m, 'c) PlaceObject2Tag \<Rightarrow> ('m, 'c) movie_definition \<Rightarrow> ('m, 'c) movie_definition" where
  "add_execute_tag ch m = m\<lparr>execute_tags := execute_tags m @ [ch]\<rparr>"

definition addTimelineDepth :: "int \<Rightarrow> ('m, 'c) movie_definition \<Rightarrow> ('m, 'c) movie_definition" where
  "addTimelineDepth depth m = m\<lparr>timeline_depths := timeline_depths m @ [depth]\<rparr>"

text \<open>
  \<open>loader\<close>. The tag object \<open>ch0\<close> is the one the constructor built; the constructor is
  declared in PlaceObject2Tag.h, which is not under src/, so \<open>ch0\<close> is an argument.
\<close>

definition loader ::
  "('m, 'c) collaborators \<Rightarrow> ('m, 'c) PlaceObject2Tag \<Rightarrow> tag_type \<Rightarrow>
   parse_state \<times> ('m, 'c) movie_definition \<Rightarrow>
   DecodeError + (parse_state \<times> ('m, 'c) movie_definition)" where
  "loader E ch0 tag = (\<lambda>(s, m).
     if \<not> (tag = PLACEOBJECT \<or> tag = PLACEOBJECT2 \<or> tag = PLACEOBJECT3)
     then Inl AssertionFailure
     else
       bnd (read E tag (get_version m) (ch0, s)) (\<lambda>(ch, s').
       let m' = add_execute_tag ch m;
           depth = m_depth ch
       in if depth < 0 \<and> depth \<ge> staticDepthOffset E
          then Inr (s', addTimelineDepth depth m')
          else Inr (s'\<lparr>log := log s' @ [DepthOutOfStaticZone depth]\<rparr>, m')))"

section \<open>The display list and execute\<close>

text \<open>
  Modelled from the spec: \<open>sprite_instance\<close> and its display list (sprite_instance.h,
  dlist.h) are not under src/. Sections 3 and 4.4 of the specification: the display list
  maps a depth to at most one live instance. Place looks the character up in the
  dictionary (a miss is logged and skipped), builds a new instance and puts it at the
  depth, over any occupant. Move needs an occupant (none: logged, nothing done) and
  updates only the fields present on the record, leaving identity and event
  registrations alone; a field is absent when its pointer is null or its value is the
  sentinel. Replace needs an occupant and puts a new instance in its place. Remove
  erases the entry; a missing one is logged. Where Replace gets a null pointer the
  specification does not say what the new instance has; the model keeps the former
  occupant's value there.
\<close>

record ('m, 'c) placed_character =
  inst_id :: nat
  inst_character_id :: "16 word"
  inst_name :: "byte list option"
  inst_event_handlers :: "swf_event list"
  inst_cxform :: 'c
  inst_matrix :: 'm
  inst_ratio :: int
  inst_clip_depth :: int

datatype apply_msg = UnknownCharacter "16 word" | StaleDepthReference int

record ('m, 'c) sprite_instance =
  display_list :: "int \<Rightarrow> ('m, 'c) placed_character option"
  dictionary :: "16 word \<Rightarrow> bool"
  next_id :: nat
  apply_log :: "apply_msg list"

definition add_display_object ::
  "16 word \<Rightarrow> byte list option \<Rightarrow> swf_event list \<Rightarrow> int \<Rightarrow> 'c \<Rightarrow> 'm \<Rightarrow> int \<Rightarrow> int \<Rightarrow>
   ('m, 'c) sprite_instance \<Rightarrow> ('m, 'c) sprite_instance" where
  "add_display_object character_id name event_handlers depth color_transform mat ratio
     clip_depth m =
     (if \<not> dictionary m character_id
      then m\<lparr>apply_log := apply_log m @ [UnknownCharacter character_id]\<rparr>
      else m\<lparr>display_list := (display_list m)(depth \<mapsto>
                \<lparr>inst_id = next_id m, inst_character_id = character_id, inst_name = name,
                 inst_event_handlers = event_handlers, inst_cxform = color_transform,
                 inst_matrix = mat, inst_ratio = ratio, inst_clip_depth = clip_depth\<rparr>),
             next_id := next_id m + 1\<rparr>)"

definition move_display_object ::
  "('m, 'c) collaborators \<Rightarrow> int \<Rightarrow> 'c option \<Rightarrow> 'm option \<Rightarrow> int \<Rightarrow> int \<Rightarrow>
   ('m, 'c) sprite_instance \<Rightarrow> ('m, 'c) sprite_instance" where
  "move_display_object E depth color_xform mat ratio clip_depth m =
     (case display_list m depth of
        None \<Rightarrow> m\<lparr>apply_log := apply_log m @ [StaleDepthReference depth]\<rparr>
      | Some ch \<Rightarrow>
          m\<lparr>display_list := (display_list m)(depth \<mapsto>
              ch\<lparr>inst_cxform := (case color_xform of None \<Rightarrow> inst_cxform ch | Some cx \<Rightarrow> cx),
                 inst_matrix := (case mat of None \<Rightarrow> inst_matrix ch | Some mx \<Rightarrow> mx),
                 inst_ratio := (if ratio = noRatioValue E then inst_ratio ch else ratio),
                 inst_clip_depth :=
                   (if clip_depth = noClipDepthValue E then inst_clip_depth ch
                    else clip_depth)\<rparr>)\<rparr>)"

definition replace_display_object ::
  "16 word \<Rightarrow> byte list option \<Rightarrow> int \<Rightarrow> 'c option \<Rightarrow> 'm option \<Rightarrow> int \<Rightarrow> int \<Rightarrow>
   ('m, 'c) sprite_instance \<Rightarrow> ('m, 'c) sprite_instance" where
  "replace_display_object character_id name depth color_xform mat ratio clip_depth m =
     (case display_list m depth of
        None \<Rightarrow> m\<lparr>apply_log := apply_log m @ [StaleDepthReference depth]\<rparr>
      | Some old \<Rightarrow>
          if \<not> dictionary m character_id
          then m\<lparr>apply_log := apply_log m @ [UnknownCharacter character_id]\<rparr>
          else m\<lparr>display_list := (display_list m)(depth \<mapsto>
                    \<lparr>inst_id = next_id m, inst_character_id = character_id, inst_name = name,
                     inst_event_handlers = [],
                     inst_cxform =
                       (case color_xform of None \<Rightarrow> inst_cxform old | Some cx \<Rightarrow> cx),
                     inst_matrix = (case mat of None \<Rightarrow> inst_matrix old | Some mx \<Rightarrow> mx),
                     inst_ratio = ratio, inst_clip_depth = clip_depth\<rparr>),
                 next_id := next_id m + 1\<rparr>)"

definition remove_display_object ::
  "int \<Rightarrow> int \<Rightarrow> ('m, 'c) sprite_instance \<Rightarrow> ('m, 'c) sprite_instance" where
  "remove_display_object depth unused m =
     (case display_list m depth of
        None \<Rightarrow> m\<lparr>apply_log := apply_log m @ [StaleDepthReference depth]\<rparr>
      | Some _ \<Rightarrow> m\<lparr>display_list := (display_list m)(depth := None)\<rparr>)"

text \<open>\<open>execute\<close>, from the source: a null pointer is \<open>None\<close>.\<close>

definition execute ::
  "('m, 'c) collaborators \<Rightarrow> ('m, 'c) PlaceObject2Tag \<Rightarrow> ('m, 'c) sprite_instance \<Rightarrow>
   ('m, 'c) sprite_instance" where
  "execute E t m =
     (case m_place_type t of
        PLACE \<Rightarrow>
          add_display_object (m_character_id t) (m_name t) (m_event_handlers t) (m_depth t)
            (m_color_transform t) (m_matrix t) (m_ratio t) (m_clip_depth t) m
      | MOVE \<Rightarrow>
          move_display_object E (m_depth t)
            (if m_has_cxform t then Some (m_color_transform t) else None)
            (if m_has_matrix t then Some (m_matrix t) else None)
            (m_ratio t) (m_clip_depth t) m
      | REPLACE \<Rightarrow>
          replace_display_object (m_character_id t) (m_name t) (m_depth t)
            (if m_has_cxform t then Some (m_color_transform t) else None)
            (if m_has_matrix t then Some (m_matrix t) else None)
            (m_ratio t) (m_clip_depth t) m
      | REMOVE \<Rightarrow> remove_display_object (m_depth t) 0 m)"

section \<open>Concrete collaborators and inputs\<close>

text \<open>
  To run the decoder on concrete bytes the parameters need values. In this choice a
  matrix is one byte, a colour transform three (RGB) or four (RGBA) bytes, a filter list
  is one byte, and an action block runs up to and including its first zero byte.
\<close>

definition take_bytes :: "nat \<Rightarrow> byte list \<Rightarrow> DecodeError + (byte list \<times> nat)" where
  "take_bytes n bs = (if n \<le> length bs then Inr (take n bs, n) else Inl TruncatedInput)"

fun until_end :: "byte list \<Rightarrow> DecodeError + nat" where
  "until_end [] = Inl TruncatedInput"
| "until_end (b # bs) = (if b = 0 then Inr 1 else bnd (until_end bs) (\<lambda>n. Inr (Suc n)))"

definition test_collaborators :: "(byte list, byte list) collaborators" where
  "test_collaborators =
     \<lparr>staticDepthOffset = - 16384, noRatioValue = - 1, noClipDepthValue = - 1000000,
      key_INVALID = 0, key_CONTROL = 17, verbose_malformed_swf = True,
      matrix_read = take_bytes 1, cxform_read_rgb = take_bytes 3,
      cxform_read_rgba = take_bytes 4,
      filter_factory_read = (\<lambda>v bs. bnd (take_bytes 1 bs) (\<lambda>(_, n). Inr ((), n))),
      action_buffer_read = until_end\<rparr>"

definition new_tag :: "(byte list, byte list) PlaceObject2Tag" where
  "new_tag =
     \<lparr>m_tag_type = OTHER_TAG 0, m_name = None, m_ratio = 0, m_color_transform = [],
      m_matrix = [], m_has_matrix = False, m_has_cxform = False, m_depth = 0,
      m_character_id = 0, m_clip_depth = 0, m_place_type = PLACE, all_event_flags = 0,
      m_event_handlers = []\<rparr>"

definition tag_bytes :: "byte list \<Rightarrow> parse_state" where
  "tag_bytes bs = \<lparr>rest = bs, position = 0, unused_bits = [], action_buffers = [], log = []\<rparr>"

definition new_movie :: "int \<Rightarrow> (byte list, byte list) movie_definition" where
  "new_movie v = \<lparr>get_version = v, execute_tags = [], timeline_depths = []\<rparr>"

definition beyond_tag_entry :: parse_state where
  "beyond_tag_entry = tag_bytes [1, 0, 0, 0, 200, 0, 0, 0, 1, 2, 3]"

definition key_press_entry :: parse_state where
  "key_press_entry = tag_bytes [0, 0, 2, 0, 5, 0, 0, 0, 65, 0, 9, 9, 9]"

definition two_entries :: parse_state where
  "two_entries = tag_bytes [2, 0, 0, 0, 1, 0, 0, 0, 0, 1, 0, 0, 0, 1, 0, 0, 0, 7, 0]"

definition empty_event_table :: parse_state where
  "empty_event_table = tag_bytes [1, 0, 3, 0, 0, 0, 0, 0, 0, 0]"

definition test_sprite :: "(byte list, byte list) sprite_instance" where
  "test_sprite =
     \<lparr>display_list = (\<lambda>d. if d = - 16383
          then Some \<lparr>inst_id = 0, inst_character_id = 7, inst_name = None,
                 inst_event_handlers =
                   [\<lparr>m_event = \<lparr>m_id = LOAD, m_key_code = 0\<rparr>, m_action_buffer = Some 0\<rparr>],
                 inst_cxform = [1, 2, 3, 4], inst_matrix = [9], inst_ratio = 5,
                 inst_clip_depth = - 1000000\<rparr>
          else None),
      dictionary = (\<lambda>c. True), next_id = 1, apply_log = []\<rparr>"

definition place_object3_bytes :: "byte list" where
  "place_object3_bytes =
     [254, 7, 1, 0, 5, 0, 170, 1, 2, 3, 4, 9, 0, 104, 105, 0, 3, 0, 0, 2, 1,
      0, 0, 1, 0, 0, 0, 0, 0, 0, 0]"

section \<open>The flag bits of the extended tags\<close>

text \<open>
  The layout of the flag bytes as section 4.2 of the specification gives it, most
  significant bit first: has-actions, has-clip-depth, has-name, has-ratio, has-cxform,
  has-matrix, has-character, move; and in the second byte, which only PlaceObject3 from
  version 8 on has (\<open>v8\<close>), five reserved bits, has-bitmap-caching, has-blend-mode,
  has-filters.
\<close>

definition flags_of_bytes :: "bool \<Rightarrow> byte \<Rightarrow> byte \<Rightarrow> place_flags" where
  "flags_of_bytes v8 b0 b1 =
     \<lparr>has_actions = bit b0 7, has_clip_bracket = bit b0 6, has_name = bit b0 5,
      has_ratio = bit b0 4, has_cxform = bit b0 3, has_matrix = bit b0 2,
      has_char = bit b0 1, flag_move = bit b0 0,
      has_bitmap_caching = (v8 \<and> bit b1 2), has_blend_mode = (v8 \<and> bit b1 1),
      has_filters = (v8 \<and> bit b1 0)\<rparr>"

lemma readPlaceObject2_flags_eq:
  "readPlaceObject2_flags v p2 (align s) =
     (case rest s of
        [] \<Rightarrow> Inl TruncatedInput
      | b0 # bs \<Rightarrow>
          if \<not> p2 \<and> v \<ge> 8
          then (case bs of
                  [] \<Rightarrow> Inl TruncatedInput
                | b1 # _ \<Rightarrow> Inr (flags_of_bytes True b0 b1, advance 2 s))
          else Inr (flags_of_bytes False b0 0, advance 1 s))"
  by (simp add: readPlaceObject2_flags_def read_bit_def read_byte_def read_uint_def
      eval_nat_numeral flags_of_bytes_def advance_def align_def split: list.split)

lemma readPlaceObject2E:
  assumes "readPlaceObject2 E v p2 (t, s) = Inr (t', s')"
  obtains f s0 t1 s1 t2 s2 t3 s3 t4 s4 t5 s5 t6 s6 t7 s7 t8 s8 t9 s9 t10 s10 t11 where
    "readPlaceObject2_flags v p2 (align s) = Inr (f, s0)"
    "po2_depth E (t, s0) = Inr (t1, s1)"
    "po2_character_id (has_char f) (t1, s1) = Inr (t2, s2)"
    "po2_matrix E (has_matrix f) (t2, s2) = Inr (t3, s3)"
    "po2_cxform E (has_cxform f) (t3, s3) = Inr (t4, s4)"
    "po2_ratio E (has_ratio f) (t4, s4) = Inr (t5, s5)"
    "po2_name (has_name f) (t5, s5) = Inr (t6, s6)"
    "po2_clip_depth E (has_clip_bracket f) (t6, s6) = Inr (t7, s7)"
    "po2_filters E v (has_filters f) (t7, s7) = Inr (t8, s8)"
    "po2_discard_u8 (has_blend_mode f) (t8, s8) = Inr (t9, s9)"
    "po2_discard_u8 (has_bitmap_caching f) (t9, s9) = Inr (t10, s10)"
    "po2_actions E v (has_actions f) (t10, s10) = Inr (t11, s')"
    "t' = po2_place_type (has_char f) (flag_move f) t11"
  using assms unfolding readPlaceObject2_def
  apply (simp only: prod.case)
  apply ((erule bndE, clarsimp)+)
  done

lemma m_place_type_po2_place_type:
  "m_place_type (po2_place_type c m t) =
     (if c then (if m then REPLACE else PLACE) else (if m then MOVE else REMOVE))"
  by (simp add: po2_place_type_def)

section \<open>The place type\<close>

text \<open>
  Claim C1. Whenever the decoder of the extended tags returns, the place type of the
  record is the one the truth table gives for the two decoded flags has_char and
  flag_move, which are bits 1 and 0 of the first byte of the tag: (true, false) is
  Place, (true, true) is Replace, (false, true) is Move, (false, false) is Remove.
\<close>

theorem place_type_truth_table:
  assumes "readPlaceObject2 E v p2 (t, s) = Inr (t', s')"
  shows "\<exists>f s0 b0 bs. readPlaceObject2_flags v p2 (align s) = Inr (f, s0) \<and>
           rest s = b0 # bs \<and> has_char f = bit b0 1 \<and> flag_move f = bit b0 0 \<and>
           m_place_type t' =
             (case (has_char f, flag_move f) of
                (True, False) \<Rightarrow> PLACE
              | (True, True) \<Rightarrow> REPLACE
              | (False, True) \<Rightarrow> MOVE
              | (False, False) \<Rightarrow> REMOVE)"
proof -
  from assms obtain f s0 t11 where
    f: "readPlaceObject2_flags v p2 (align s) = Inr (f, s0)" and
    t': "t' = po2_place_type (has_char f) (flag_move f) t11"
    by (rule readPlaceObject2E)
  from f obtain b0 bs where "rest s = b0 # bs" "has_char f = bit b0 1" "flag_move f = bit b0 0"
    by (auto simp: readPlaceObject2_flags_eq flags_of_bytes_def split: list.splits if_splits)
  with f t' show ?thesis
    by (simp add: m_place_type_po2_place_type)
qed

theorem place_type_truth_table_witness:
  "readPlaceObject2 test_collaborators 6 True (new_tag, tag_bytes [3, 1, 0, 5, 0]) =
     Inr (new_tag\<lparr>m_depth := - 16383, m_character_id := 5, m_ratio := - 1,
            m_clip_depth := - 1000000, m_place_type := REPLACE\<rparr>,
          advance 5 (tag_bytes [3, 1, 0, 5, 0])) \<and>
   (\<exists>f s0 b0 bs.
      readPlaceObject2_flags 6 True (align (tag_bytes [3, 1, 0, 5, 0])) = Inr (f, s0) \<and>
      tag_bytes [3, 1, 0, 5, 0] = tag_bytes (b0 # bs) \<and>
      has_char f = bit b0 1 \<and> flag_move f = bit b0 0 \<and> has_char f \<and> flag_move f)"
proof -
  have run: "readPlaceObject2 test_collaborators 6 True (new_tag, tag_bytes [3, 1, 0, 5, 0]) =
     Inr (new_tag\<lparr>m_depth := - 16383, m_character_id := 5, m_ratio := - 1,
            m_clip_depth := - 1000000, m_place_type := REPLACE\<rparr>,
          advance 5 (tag_bytes [3, 1, 0, 5, 0]))"
    by code_simp
  from place_type_truth_table [OF run] obtain f s0 b0 bs where
    "readPlaceObject2_flags 6 True (align (tag_bytes [3, 1, 0, 5, 0])) = Inr (f, s0)"
    "rest (tag_bytes [3, 1, 0, 5, 0]) = b0 # bs"
    "has_char f = bit b0 1" "flag_move f = bit b0 0"
    by blast
  then have "tag_bytes [3, 1, 0, 5, 0] = tag_bytes (b0 # bs) \<and> has_char f \<and> flag_move f"
    by (simp add: tag_bytes_def)
  with run show ?thesis
    using \<open>readPlaceObject2_flags 6 True (align (tag_bytes [3, 1, 0, 5, 0])) = Inr (f, s0)\<close>
      \<open>has_char f = bit b0 1\<close> \<open>flag_move f = bit b0 0\<close>
    by blast
qed

section \<open>What the readers do to the record\<close>

lemma call_reader_Inr:
  "call_reader f s = Inr (v, s') \<longleftrightarrow>
     (\<exists>n. f (rest s) = Inr (v, n) \<and> n \<le> length (rest s) \<and> s' = advance n s)"
  by (auto simp: call_reader_def bnd_eq_Inr split: if_splits)

lemma read_u8_Inr:
  "read_u8 s = Inr (b, s') \<longleftrightarrow> (\<exists>bs. rest s = b # bs \<and> s' = advance 1 s)"
  by (auto simp: read_u8_eq split: list.splits)

lemma read_u16_Inr:
  "read_u16 s = Inr (w, s') \<longleftrightarrow>
     (\<exists>b0 b1 bs. rest s = b0 # b1 # bs \<and> w = le16 b0 b1 \<and> s' = advance 2 s)"
  by (auto simp: read_u16_eq split: list.splits)

lemma read_u32_Inr:
  "read_u32 s = Inr (w, s') \<longleftrightarrow>
     (\<exists>b0 b1 b2 b3 bs. rest s = b0 # b1 # b2 # b3 # bs \<and> w = le32 b0 b1 b2 b3 \<and>
        s' = advance 4 s)"
  by (auto simp: read_u32_eq split: list.splits)

lemma readPlaceObject_Inr:
  assumes "readPlaceObject E (t, s) = Inr (t', s')"
  shows "\<exists>c0 c1 d0 d1 bs mx n.
           rest s = c0 # c1 # d0 # d1 # bs \<and>
           matrix_read E bs = Inr (mx, n) \<and> n \<le> length bs \<and>
           (if n < length bs
            then \<exists>cx k. cxform_read_rgb E (drop n bs) = Inr (cx, k) \<and> k \<le> length bs - n \<and>
                   t' = t\<lparr>m_character_id := le16 c0 c1,
                          m_depth := uint (le16 d0 d1) + staticDepthOffset E,
                          m_matrix := mx, m_color_transform := cx\<rparr> \<and>
                   s' = advance (4 + n + k) s
            else t' = t\<lparr>m_character_id := le16 c0 c1,
                        m_depth := uint (le16 d0 d1) + staticDepthOffset E,
                        m_matrix := mx\<rparr> \<and>
                 s' = advance (4 + n) s)"
  using assms unfolding readPlaceObject_def
  apply (simp only: prod.case)
  apply (erule bndE, clarsimp simp: read_u16_Inr)
  apply (erule bndE, clarsimp simp: read_u16_Inr)
  apply (erule bndE, clarsimp simp: call_reader_Inr)
  apply (auto simp: Let_def get_position_def get_tag_end_position_def bnd_eq_Inr call_reader_Inr
      eval_nat_numeral add.commute add.left_commute split: if_splits)
  done


lemma readPlaceActions_event_Break_tag:
  assumes "readPlaceActions_event E v (t, s) = Inr (Break (t', s'))"
  shows "t' = t"
  using assms unfolding readPlaceActions_event_def
  apply (simp only: prod.case)
  apply (erule bndE, clarsimp split: if_splits)
  apply (erule bndE, clarsimp split: if_splits)
  apply (erule bndE, clarsimp split: if_splits)
  apply (erule bndE, clarsimp split: if_splits prod.splits)
  done

lemma readPlaceActions_event_Continue_tag:
  assumes "readPlaceActions_event E v (t, s) = Inr (Continue (t', s'))"
  shows "\<exists>evs. t' = t\<lparr>m_event_handlers := m_event_handlers t @ evs\<rparr>"
  using assms unfolding readPlaceActions_event_Continue
  by (auto dest: push_event_handlers_tag [OF sym])

lemma readPlaceActions_loop_tag:
  "readPlaceActions_loop E v ts = Inr ts' \<Longrightarrow>
   \<exists>evs. fst ts' = (fst ts)\<lparr>m_event_handlers := m_event_handlers (fst ts) @ evs\<rparr>"
proof (induction E v ts rule: readPlaceActions_loop.induct)
  case (1 E v ts)
  obtain t s where ts: "ts = (t, s)" by (cases ts)
  show ?case
  proof (cases "readPlaceActions_event E v ts")
    case (Inl e)
    with "1.prems" show ?thesis
      by (simp add: readPlaceActions_loop.simps [of E v ts])
  next
    case (Inr x)
    show ?thesis
    proof (cases x)
      case (Break r)
      with Inr "1.prems" have "ts' = r"
        by (simp add: readPlaceActions_loop.simps [of E v ts])
      with Inr Break ts have "fst ts' = t"
        by (cases ts') (auto dest: readPlaceActions_event_Break_tag)
      with ts show ?thesis
        by (intro exI [of _ "[]"]) simp
    next
      case (Continue ts2)
      with Inr "1.prems" have "readPlaceActions_loop E v ts2 = Inr ts'"
        by (simp add: readPlaceActions_loop.simps [of E v ts])
      with "1.IH" [OF Inr Continue] obtain evs2 where
        a: "fst ts' = (fst ts2)\<lparr>m_event_handlers := m_event_handlers (fst ts2) @ evs2\<rparr>"
        by blast
      from Inr Continue ts obtain evs1 where
        b: "fst ts2 = t\<lparr>m_event_handlers := m_event_handlers t @ evs1\<rparr>"
        by (cases ts2) (auto dest: readPlaceActions_event_Continue_tag)
      from a b ts show ?thesis
        by (intro exI [of _ "evs1 @ evs2"]) simp
    qed
  qed
qed

lemma readPlaceActions_tag:
  assumes "readPlaceActions E v (t, s) = Inr (t', s')"
  shows "\<exists>fl evs. t' = t\<lparr>all_event_flags := fl, m_event_handlers := m_event_handlers t @ evs\<rparr>"
  using assms unfolding readPlaceActions_def
  apply (simp only: prod.case Let_def)
  apply (erule bndE, clarsimp)
  apply (erule bndE, clarsimp)
  apply (drule readPlaceActions_loop_tag)
  apply auto
  done

lemma po2_depth_Inr:
  "po2_depth E (t, s) = Inr (t', s') \<longleftrightarrow>
     (\<exists>d0 d1 bs. rest s = d0 # d1 # bs \<and>
        t' = t\<lparr>m_depth := uint (le16 d0 d1) + staticDepthOffset E\<rparr> \<and> s' = advance 2 s)"
  by (auto simp: po2_depth_def bnd_eq_Inr read_u16_Inr)

lemma po2_character_id_tag:
  "po2_character_id b (t, s) = Inr (t', s') \<Longrightarrow> \<exists>x. t' = t\<lparr>m_character_id := x\<rparr>"
  by (auto simp: po2_character_id_def bnd_eq_Inr split: if_splits intro: exI [of _ "m_character_id t"])

lemma po2_matrix_tag:
  "po2_matrix E b (t, s) = Inr (t', s') \<Longrightarrow>
   \<exists>x. t' = t\<lparr>m_has_matrix := (b \<or> m_has_matrix t), m_matrix := x\<rparr>"
  by (auto simp: po2_matrix_def bnd_eq_Inr split: if_splits intro: exI [of _ "m_matrix t"])

lemma po2_cxform_tag:
  "po2_cxform E b (t, s) = Inr (t', s') \<Longrightarrow>
   \<exists>x. t' = t\<lparr>m_has_cxform := (b \<or> m_has_cxform t), m_color_transform := x\<rparr>"
  by (auto simp: po2_cxform_def bnd_eq_Inr split: if_splits intro: exI [of _ "m_color_transform t"])

lemma po2_ratio_tag:
  "po2_ratio E b (t, s) = Inr (t', s') \<Longrightarrow>
   \<exists>x. t' = t\<lparr>m_ratio := x\<rparr> \<and> (\<not> b \<longrightarrow> x = noRatioValue E)"
  by (auto simp: po2_ratio_def bnd_eq_Inr split: if_splits)

lemma po2_name_tag:
  "po2_name b (t, s) = Inr (t', s') \<Longrightarrow> \<exists>x. t' = t\<lparr>m_name := x\<rparr>"
  by (auto simp: po2_name_def bnd_eq_Inr split: if_splits intro: exI [of _ "m_name t"])

lemma po2_clip_depth_tag:
  "po2_clip_depth E b (t, s) = Inr (t', s') \<Longrightarrow>
   \<exists>x. t' = t\<lparr>m_clip_depth := x\<rparr> \<and> (\<not> b \<longrightarrow> x = noClipDepthValue E)"
  by (auto simp: po2_clip_depth_def bnd_eq_Inr split: if_splits)

lemma po2_filters_tag: "po2_filters E v b (t, s) = Inr (t', s') \<Longrightarrow> t' = t"
  by (auto simp: po2_filters_def bnd_eq_Inr split: if_splits)

lemma po2_discard_u8_tag: "po2_discard_u8 b (t, s) = Inr (t', s') \<Longrightarrow> t' = t"
  by (auto simp: po2_discard_u8_def bnd_eq_Inr split: if_splits)

lemma po2_actions_tag:
  "po2_actions E v b (t, s) = Inr (t', s') \<Longrightarrow>
   \<exists>fl evs. t' = t\<lparr>all_event_flags := fl, m_event_handlers := m_event_handlers t @ evs\<rparr>"
  apply (cases b)
   apply (simp add: po2_actions_def readPlaceActions_tag)
  apply (simp add: po2_actions_def)
  apply (rule exI [of _ "all_event_flags t"], rule exI [of _ "[]"], simp)
  done

lemma readPlaceObject2_tag:
  assumes "readPlaceObject2 E v p2 (t, s) = Inr (t', s')"
  shows "\<exists>f s0 d0 d1 bs cid mx cx r nm cd fl evs.
     readPlaceObject2_flags v p2 (align s) = Inr (f, s0) \<and>
     rest s0 = d0 # d1 # bs \<and>
     (\<not> has_ratio f \<longrightarrow> r = noRatioValue E) \<and>
     (\<not> has_clip_bracket f \<longrightarrow> cd = noClipDepthValue E) \<and>
     t' = t\<lparr>m_depth := uint (le16 d0 d1) + staticDepthOffset E,
            m_character_id := cid,
            m_has_matrix := (has_matrix f \<or> m_has_matrix t), m_matrix := mx,
            m_has_cxform := (has_cxform f \<or> m_has_cxform t), m_color_transform := cx,
            m_ratio := r, m_name := nm, m_clip_depth := cd,
            all_event_flags := fl, m_event_handlers := m_event_handlers t @ evs,
            m_place_type :=
              (if has_char f then (if flag_move f then REPLACE else PLACE)
               else (if flag_move f then MOVE else REMOVE))\<rparr>"
proof -
  from assms obtain f s0 t1 s1 t2 s2 t3 s3 t4 s4 t5 s5 t6 s6 t7 s7 t8 s8 t9 s9 t10 s10 t11 where
    f: "readPlaceObject2_flags v p2 (align s) = Inr (f, s0)" and
    1: "po2_depth E (t, s0) = Inr (t1, s1)" and
    2: "po2_character_id (has_char f) (t1, s1) = Inr (t2, s2)" and
    3: "po2_matrix E (has_matrix f) (t2, s2) = Inr (t3, s3)" and
    4: "po2_cxform E (has_cxform f) (t3, s3) = Inr (t4, s4)" and
    5: "po2_ratio E (has_ratio f) (t4, s4) = Inr (t5, s5)" and
    6: "po2_name (has_name f) (t5, s5) = Inr (t6, s6)" and
    7: "po2_clip_depth E (has_clip_bracket f) (t6, s6) = Inr (t7, s7)" and
    8: "po2_filters E v (has_filters f) (t7, s7) = Inr (t8, s8)" and
    9: "po2_discard_u8 (has_blend_mode f) (t8, s8) = Inr (t9, s9)" and
    10: "po2_discard_u8 (has_bitmap_caching f) (t9, s9) = Inr (t10, s10)" and
    11: "po2_actions E v (has_actions f) (t10, s10) = Inr (t11, s')" and
    12: "t' = po2_place_type (has_char f) (flag_move f) t11"
    by (rule readPlaceObject2E)
  from 1 obtain d0 d1 bs where d: "rest s0 = d0 # d1 # bs"
    and t1: "t1 = t\<lparr>m_depth := uint (le16 d0 d1) + staticDepthOffset E\<rparr>"
    unfolding po2_depth_Inr by blast
  from 2 obtain cid where t2: "t2 = t1\<lparr>m_character_id := cid\<rparr>"
    by (blast dest: po2_character_id_tag)
  from 3 obtain mx where
    t3: "t3 = t2\<lparr>m_has_matrix := (has_matrix f \<or> m_has_matrix t2), m_matrix := mx\<rparr>"
    by (blast dest: po2_matrix_tag)
  from 4 obtain cx where
    t4: "t4 = t3\<lparr>m_has_cxform := (has_cxform f \<or> m_has_cxform t3), m_color_transform := cx\<rparr>"
    by (blast dest: po2_cxform_tag)
  from 5 obtain r where t5: "t5 = t4\<lparr>m_ratio := r\<rparr>" and r: "\<not> has_ratio f \<longrightarrow> r = noRatioValue E"
    by (blast dest: po2_ratio_tag)
  from 6 obtain nm where t6: "t6 = t5\<lparr>m_name := nm\<rparr>"
    by (blast dest: po2_name_tag)
  from 7 obtain cd where t7: "t7 = t6\<lparr>m_clip_depth := cd\<rparr>"
    and cd: "\<not> has_clip_bracket f \<longrightarrow> cd = noClipDepthValue E"
    by (blast dest: po2_clip_depth_tag)
  from 8 9 10 have t10: "t10 = t7"
    by (auto dest: po2_filters_tag po2_discard_u8_tag)
  from 11 obtain fl evs where
    t11: "t11 = t10\<lparr>all_event_flags := fl, m_event_handlers := m_event_handlers t10 @ evs\<rparr>"
    by (blast dest: po2_actions_tag)
  have "t' = t\<lparr>m_depth := uint (le16 d0 d1) + staticDepthOffset E,
            m_character_id := cid,
            m_has_matrix := (has_matrix f \<or> m_has_matrix t), m_matrix := mx,
            m_has_cxform := (has_cxform f \<or> m_has_cxform t), m_color_transform := cx,
            m_ratio := r, m_name := nm, m_clip_depth := cd,
            all_event_flags := fl, m_event_handlers := m_event_handlers t @ evs,
            m_place_type :=
              (if has_char f then (if flag_move f then REPLACE else PLACE)
               else (if flag_move f then MOVE else REMOVE))\<rparr>"
    unfolding 12 t11 t10 t7 t6 t5 t4 t3 t2 t1 po2_place_type_def
    by simp
  with f d r cd show ?thesis by blast
qed

lemma drop_two_nth:
  assumes "drop k xs = a # b # ys"
  shows "k + 1 < length xs \<and> xs ! k = a \<and> xs ! (k + 1) = b"
proof -
  from assms have "length (drop k xs) = Suc (Suc (length ys))" by simp
  then have l: "k + 1 < length xs" by simp
  from assms have a: "xs ! k = a" by (rule nth_via_drop)
  from assms have "drop (Suc k) xs = b # ys"
    by (metis drop_Suc list.sel(3) tl_drop)
  then have "xs ! Suc k = b" by (rule nth_via_drop)
  with l a show ?thesis by simp
qed

lemma readPlaceObject2_depth:
  assumes "readPlaceObject2 E v p2 (t, s) = Inr (t', s')"
  shows "\<exists>f s0 d0 d1 bs. readPlaceObject2_flags v p2 (align s) = Inr (f, s0) \<and>
           rest s0 = d0 # d1 # bs \<and> m_depth t' = uint (le16 d0 d1) + staticDepthOffset E"
  using readPlaceObject2_tag [OF assms]
  apply (elim exE conjE)
  apply (intro exI conjI, assumption, assumption)
  apply simp
  done

section \<open>The legacy tag\<close>

text \<open>
  Claim C3. Whenever the decoder of the legacy PlaceObject tag returns, the character id
  is the first 16-bit value of the tag, the depth is the second one plus the static depth
  offset, the matrix is what the matrix reader makes of the bytes that follow, and the
  colour transform is read, by the RGB reader, exactly when the cursor stands before the
  end of the tag after the matrix; otherwise the colour transform is left as it was. No
  flag takes part in the decision.
\<close>

theorem legacy_place_object_layout:
  assumes "readPlaceObject E (t, s) = Inr (t', s')"
  shows "\<exists>c0 c1 d0 d1 bs mx n s3.
     rest s = c0 # c1 # d0 # d1 # bs \<and>
     m_character_id t' = le16 c0 c1 \<and>
     m_depth t' = uint (le16 d0 d1) + staticDepthOffset E \<and>
     matrix_read E bs = Inr (mx, n) \<and> m_matrix t' = mx \<and> s3 = advance (4 + n) s \<and>
     (if get_position s3 < get_tag_end_position s3
      then \<exists>cx k. cxform_read_rgb E (rest s3) = Inr (cx, k) \<and>
             m_color_transform t' = cx \<and> s' = advance k s3
      else m_color_transform t' = m_color_transform t \<and> s' = s3)"
proof -
  from readPlaceObject_Inr [OF assms] obtain c0 c1 d0 d1 bs mx n where
    r: "rest s = c0 # c1 # d0 # d1 # bs" and
    m: "matrix_read E bs = Inr (mx, n)" "n \<le> length bs" and
    c: "if n < length bs
        then \<exists>cx k. cxform_read_rgb E (drop n bs) = Inr (cx, k) \<and> k \<le> length bs - n \<and>
               t' = t\<lparr>m_character_id := le16 c0 c1,
                      m_depth := uint (le16 d0 d1) + staticDepthOffset E,
                      m_matrix := mx, m_color_transform := cx\<rparr> \<and>
               s' = advance (4 + n + k) s
        else t' = t\<lparr>m_character_id := le16 c0 c1,
                    m_depth := uint (le16 d0 d1) + staticDepthOffset E,
                    m_matrix := mx\<rparr> \<and>
             s' = advance (4 + n) s"
    by blast
  have pos: "get_position (advance (4 + n) s) < get_tag_end_position (advance (4 + n) s)
      \<longleftrightarrow> n < length bs"
    using r by (simp add: get_position_def get_tag_end_position_def)
  have rest3: "rest (advance (4 + n) s) = drop n bs"
    using r by (simp add: eval_nat_numeral)
  show ?thesis
  proof (cases "n < length bs")
    case True
    with c obtain cx k where "cxform_read_rgb E (drop n bs) = Inr (cx, k)"
      "t' = t\<lparr>m_character_id := le16 c0 c1,
              m_depth := uint (le16 d0 d1) + staticDepthOffset E,
              m_matrix := mx, m_color_transform := cx\<rparr>"
      "s' = advance (4 + n + k) s"
      by auto
    with r m True pos rest3 show ?thesis
      by (intro exI [of _ c0] exI [of _ c1] exI [of _ d0] exI [of _ d1] exI [of _ bs]
          exI [of _ mx] exI [of _ n] exI [of _ "advance (4 + n) s"]) simp
  next
    case False
    with c have "t' = t\<lparr>m_character_id := le16 c0 c1,
              m_depth := uint (le16 d0 d1) + staticDepthOffset E, m_matrix := mx\<rparr>"
      "s' = advance (4 + n) s"
      by auto
    with r m False pos show ?thesis
      by (intro exI [of _ c0] exI [of _ c1] exI [of _ d0] exI [of _ d1] exI [of _ bs]
          exI [of _ mx] exI [of _ n] exI [of _ "advance (4 + n) s"]) simp
  qed
qed

theorem legacy_place_object_layout_witness:
  "readPlaceObject test_collaborators (new_tag, tag_bytes [5, 0, 1, 0, 170, 1, 2, 3]) =
     Inr (new_tag\<lparr>m_character_id := 5, m_depth := - 16383, m_matrix := [170],
            m_color_transform := [1, 2, 3]\<rparr>,
          advance 8 (tag_bytes [5, 0, 1, 0, 170, 1, 2, 3])) \<and>
   (\<exists>c0 c1 d0 d1 bs mx n s3.
     rest (tag_bytes [5, 0, 1, 0, 170, 1, 2, 3]) = c0 # c1 # d0 # d1 # bs \<and>
     m_character_id (new_tag\<lparr>m_character_id := 5, m_depth := - 16383, m_matrix := [170],
            m_color_transform := [1, 2, 3]\<rparr>) = le16 c0 c1 \<and>
     m_depth (new_tag\<lparr>m_character_id := 5, m_depth := - 16383, m_matrix := [170],
            m_color_transform := [1, 2, 3]\<rparr>) =
       uint (le16 d0 d1) + staticDepthOffset test_collaborators \<and>
     matrix_read test_collaborators bs = Inr (mx, n) \<and>
     m_matrix (new_tag\<lparr>m_character_id := 5, m_depth := - 16383, m_matrix := [170],
            m_color_transform := [1, 2, 3]\<rparr>) = mx \<and>
     s3 = advance (4 + n) (tag_bytes [5, 0, 1, 0, 170, 1, 2, 3]) \<and>
     (if get_position s3 < get_tag_end_position s3
      then \<exists>cx k. cxform_read_rgb test_collaborators (rest s3) = Inr (cx, k) \<and>
             m_color_transform (new_tag\<lparr>m_character_id := 5, m_depth := - 16383,
               m_matrix := [170], m_color_transform := [1, 2, 3]\<rparr>) = cx \<and>
             advance 8 (tag_bytes [5, 0, 1, 0, 170, 1, 2, 3]) = advance k s3
      else m_color_transform (new_tag\<lparr>m_character_id := 5, m_depth := - 16383,
               m_matrix := [170], m_color_transform := [1, 2, 3]\<rparr>) =
             m_color_transform new_tag \<and>
           advance 8 (tag_bytes [5, 0, 1, 0, 170, 1, 2, 3]) = s3))"
proof -
  have run: "readPlaceObject test_collaborators (new_tag, tag_bytes [5, 0, 1, 0, 170, 1, 2, 3]) =
     Inr (new_tag\<lparr>m_character_id := 5, m_depth := - 16383, m_matrix := [170],
            m_color_transform := [1, 2, 3]\<rparr>,
          advance 8 (tag_bytes [5, 0, 1, 0, 170, 1, 2, 3]))"
    by code_simp
  show ?thesis
    by (rule conjI [OF run legacy_place_object_layout [OF run]])
qed

section \<open>Depths and the timeline\<close>

text \<open>
  Claim C8. Whenever \<open>loader\<close> returns, the tag it read is added to the execute tags, and
  the depth of the tag is the 16-bit value encoded in the tag (after the character id in
  the legacy tag, after the one or two flag bytes in the extended tags) plus the static
  depth offset. The depth is registered with the timeline exactly when it is negative and
  not below the static depth offset; otherwise nothing is registered and one debug
  message is logged. With a negative offset the encoded depth 0 becomes the offset
  itself, which is negative and is registered.
\<close>

theorem loader_depth:
  assumes "loader E ch0 tag (s, m) = Inr (s', m')"
  shows "\<exists>ch s1 k. read E tag (get_version m) (ch0, s) = Inr (ch, s1) \<and>
     execute_tags m' = execute_tags m @ [ch] \<and>
     k = (if tag = PLACEOBJECT \<or> (tag = PLACEOBJECT3 \<and> get_version m \<ge> 8) then 2 else 1) \<and>
     k + 1 < length (rest s) \<and>
     m_depth ch = uint (le16 (rest s ! k) (rest s ! (k + 1))) + staticDepthOffset E \<and>
     (if m_depth ch < 0 \<and> staticDepthOffset E \<le> m_depth ch
      then timeline_depths m' = timeline_depths m @ [m_depth ch] \<and> s' = s1
      else timeline_depths m' = timeline_depths m \<and>
           s' = s1\<lparr>log := log s1 @ [DepthOutOfStaticZone (m_depth ch)]\<rparr>) \<and>
     (if staticDepthOffset E < 0 \<and> le16 (rest s ! k) (rest s ! (k + 1)) = 0
      then m_depth ch < 0 \<and> timeline_depths m' = timeline_depths m @ [staticDepthOffset E]
      else True)"
proof -
  from assms have tag: "tag = PLACEOBJECT \<or> tag = PLACEOBJECT2 \<or> tag = PLACEOBJECT3"
    by (auto simp: loader_def split: if_splits)
  with assms obtain ch s1 where
    rd: "read E tag (get_version m) (ch0, s) = Inr (ch, s1)" and
    res: "(if m_depth ch < 0 \<and> staticDepthOffset E \<le> m_depth ch
           then Inr (s1, addTimelineDepth (m_depth ch) (add_execute_tag ch m))
           else Inr (s1\<lparr>log := log s1 @ [DepthOutOfStaticZone (m_depth ch)]\<rparr>,
                     add_execute_tag ch m)) = Inr (s', m')"
    by (auto simp: loader_def bnd_eq_Inr Let_def conj_commute split: if_splits)
  define k :: nat where
    "k = (if tag = PLACEOBJECT \<or> (tag = PLACEOBJECT3 \<and> get_version m \<ge> 8) then 2 else 1)"
  have depth: "k + 1 < length (rest s) \<and>
      m_depth ch = uint (le16 (rest s ! k) (rest s ! (k + 1))) + staticDepthOffset E"
  proof (cases "tag = PLACEOBJECT")
    case True
    with rd have "readPlaceObject E (ch0\<lparr>m_tag_type := tag\<rparr>, s) = Inr (ch, s1)"
      by (simp add: read_def)
    from readPlaceObject_Inr [OF this] True show ?thesis
      by (auto simp: k_def split: if_splits)
  next
    case False
    with rd have "readPlaceObject2 E (get_version m) (tag \<noteq> PLACEOBJECT3)
        (ch0\<lparr>m_tag_type := tag\<rparr>, s) = Inr (ch, s1)"
      by (cases "tag = PLACEOBJECT3") (simp_all add: read_def)
    from readPlaceObject2_depth [OF this] obtain f s0 d0 d1 bs where
      f: "readPlaceObject2_flags (get_version m) (tag \<noteq> PLACEOBJECT3) (align s) = Inr (f, s0)" and
      d: "rest s0 = d0 # d1 # bs" and
      md: "m_depth ch = uint (le16 d0 d1) + staticDepthOffset E"
      by blast
    from f False have "s0 = advance k s"
      by (auto simp: readPlaceObject2_flags_eq k_def split: list.splits if_splits)
    with d have "drop k (rest s) = d0 # d1 # bs" by simp
    from drop_two_nth [OF this] md show ?thesis by simp
  qed
  from res have "execute_tags m' = execute_tags m @ [ch]"
    by (auto simp: add_execute_tag_def addTimelineDepth_def split: if_splits)
  moreover from res have "if m_depth ch < 0 \<and> staticDepthOffset E \<le> m_depth ch
      then timeline_depths m' = timeline_depths m @ [m_depth ch] \<and> s' = s1
      else timeline_depths m' = timeline_depths m \<and>
           s' = s1\<lparr>log := log s1 @ [DepthOutOfStaticZone (m_depth ch)]\<rparr>"
    by (auto simp: add_execute_tag_def addTimelineDepth_def split: if_splits)
  ultimately have "execute_tags m' = execute_tags m @ [ch] \<and>
     (if m_depth ch < 0 \<and> staticDepthOffset E \<le> m_depth ch
      then timeline_depths m' = timeline_depths m @ [m_depth ch] \<and> s' = s1
      else timeline_depths m' = timeline_depths m \<and>
           s' = s1\<lparr>log := log s1 @ [DepthOutOfStaticZone (m_depth ch)]\<rparr>) \<and>
     (if staticDepthOffset E < 0 \<and> le16 (rest s ! k) (rest s ! (k + 1)) = 0
      then m_depth ch < 0 \<and> timeline_depths m' = timeline_depths m @ [staticDepthOffset E]
      else True)"
    using depth by (auto split: if_splits)
  with rd depth k_def show ?thesis by blast
qed

theorem loader_depth_witness:
  "loader test_collaborators new_tag PLACEOBJECT2 (tag_bytes [2, 0, 0, 7, 0], new_movie 6) =
     Inr (advance 5 (tag_bytes [2, 0, 0, 7, 0]),
          \<lparr>get_version = 6,
           execute_tags = [new_tag\<lparr>m_tag_type := PLACEOBJECT2, m_depth := - 16384,
             m_character_id := 7, m_ratio := - 1, m_clip_depth := - 1000000\<rparr>],
           timeline_depths = [- 16384]\<rparr>) \<and>
   (\<exists>ch s1. read test_collaborators PLACEOBJECT2 6 (new_tag, tag_bytes [2, 0, 0, 7, 0]) =
       Inr (ch, s1) \<and>
     m_depth ch = uint (le16 0 0) + staticDepthOffset test_collaborators \<and>
     m_depth ch < 0 \<and> staticDepthOffset test_collaborators \<le> m_depth ch)"
proof -
  have run: "loader test_collaborators new_tag PLACEOBJECT2
       (tag_bytes [2, 0, 0, 7, 0], new_movie 6) =
     Inr (advance 5 (tag_bytes [2, 0, 0, 7, 0]),
          \<lparr>get_version = 6,
           execute_tags = [new_tag\<lparr>m_tag_type := PLACEOBJECT2, m_depth := - 16384,
             m_character_id := 7, m_ratio := - 1, m_clip_depth := - 1000000\<rparr>],
           timeline_depths = [- 16384]\<rparr>)"
    by code_simp
  from loader_depth [OF run] obtain ch s1 where
    "read test_collaborators (PLACEOBJECT2 :: tag_type) (get_version (new_movie 6))
       (new_tag, tag_bytes [2, 0, 0, 7, 0]) = Inr (ch, s1)"
    "m_depth ch = uint (le16 (rest (tag_bytes [2, 0, 0, 7, 0]) ! 1)
       (rest (tag_bytes [2, 0, 0, 7, 0]) ! (1 + 1))) + staticDepthOffset test_collaborators"
    by auto
  then have "read test_collaborators PLACEOBJECT2 6 (new_tag, tag_bytes [2, 0, 0, 7, 0]) =
       Inr (ch, s1) \<and>
     m_depth ch = uint (le16 0 0) + staticDepthOffset test_collaborators \<and>
     m_depth ch < 0 \<and> staticDepthOffset test_collaborators \<le> m_depth ch"
    by (simp add: new_movie_def tag_bytes_def test_collaborators_def le16_def)
  with run show ?thesis by blast
qed

section \<open>The event table\<close>

lemma test_bit_17: "(flags AND push_bit 17 1 \<noteq> 0) = bit flags 17"
  for flags :: "32 word"
  by (simp only: bit_iff_and_push_bit_not_eq_0)

lemma known_event_handlers_Cons:
  "known_event_handlers E flags ch (i # js) (held, handlers) =
     (if bit flags i
      then known_event_handlers E flags ch js (None, handlers @ [new_swf_event E ch held i])
      else known_event_handlers E flags ch js (held, handlers))"
  by (simp only: known_event_handlers.simps bit_iff_and_push_bit_not_eq_0 [symmetric])

lemma known_event_handlers_held_None:
  "fst (known_event_handlers E flags ch js (None, handlers)) = None"
  by (induction js arbitrary: handlers) simp_all

lemma advance_log_update:
  "advance n (s\<lparr>log := l\<rparr>) = (advance n s)\<lparr>log := l\<rparr>"
  by (simp add: advance_def align_def)

lemma known_event_handlers_held:
  "fst (known_event_handlers E flags ch js (Some a, handlers)) =
     (if \<exists>i \<in> set js. bit flags i then None else Some a)"
proof (induction js arbitrary: handlers)
  case Nil
  then show ?case by simp
next
  case (Cons i js)
  show ?case
  proof (cases "bit flags i")
    case True
    then show ?thesis
      by (simp add: known_event_handlers_Cons known_event_handlers_held_None
          del: known_event_handlers.simps)
  next
    case False
    with Cons show ?thesis
      by (simp add: known_event_handlers_Cons del: known_event_handlers.simps)
  qed
qed

lemma push_event_handlers_buffers:
  assumes "push_event_handlers E flags ch action (t, s) = (t', s')"
  shows "action_buffers s' =
     (if \<exists>i < 19. bit flags i then action_buffers s @ [action] else action_buffers s)"
proof -
  obtain held handlers where
    k: "known_event_handlers E flags ch [0 ..< total_known_events]
          (Some (length (action_buffers s)), m_event_handlers t) = (held, handlers)"
    by (cases "known_event_handlers E flags ch [0 ..< total_known_events]
          (Some (length (action_buffers s)), m_event_handlers t)")
  from known_event_handlers_held
    [of E flags ch "[0 ..< total_known_events]" "length (action_buffers s)" "m_event_handlers t"]
    k
  have "held = (if \<exists>i < 19. bit flags i then None else Some (length (action_buffers s)))"
    by (simp add: total_known_events_def)
  with assms k show ?thesis
    by (auto simp: push_event_handlers_def)
qed

lemma known_event_handlers_after_first:
  "snd (known_event_handlers E flags ch js (None, handlers)) =
     handlers @ map (new_swf_event E ch None) (filter (bit flags) js)"
  by (induction js arbitrary: handlers)
    (simp_all add: known_event_handlers_Cons del: known_event_handlers.simps(2))

lemma known_event_handlers_registrations:
  "snd (known_event_handlers E flags ch js (held, handlers)) =
     handlers @
     (case filter (bit flags) js of
        [] \<Rightarrow> []
      | i # ks \<Rightarrow> new_swf_event E ch held i # map (new_swf_event E ch None) ks)"
  by (induction js arbitrary: handlers)
    (simp_all add: known_event_handlers_Cons known_event_handlers_after_first
      del: known_event_handlers.simps(2))

lemma read_key_code_Inr:
  "read_key_code E flags declared s = Inr ((ch, len), s') \<longleftrightarrow>
     (if bit flags 17
      then \<exists>bs. rest s = ch # bs \<and> len = declared - 1 \<and> s' = advance 1 s
      else ch = key_INVALID E \<and> len = declared \<and> s' = s)"
  unfolding read_key_code_def test_bit_17
  by (auto simp: bnd_eq_Inr read_u8_Inr)

lemma action_read_Inr:
  "action_read E s = Inr (action, s') \<longleftrightarrow>
     (\<exists>n. action_buffer_read E (rest s) = Inr n \<and> n \<le> length (rest s) \<and>
        action = take n (rest s) \<and> s' = advance n s)"
  by (auto simp: action_read_def call_reader_Inr bnd_eq_Inr)

lemma skip_excess_True:
  assumes "skip_excess E len n s = (True, s')" "n \<le> unat len"
  shows "unat len - n \<le> length (rest s) \<and> rest s' = drop (unat len - n) (rest s) \<and>
         position s' = position s + (unat len - n) \<and>
         action_buffers s' = action_buffers s \<and>
         log s' = log s @ (if n < unat len \<and> verbose_malformed_swf E
                           then [SkippingExcessiveBytes len n] else [])"
  using assms
  by (auto simp: skip_excess_def skip_bytes_def log_swferror_def split: if_splits)

lemma check_reserved_bits_simps [simp]:
  "position (check_reserved_bits E flags s) = position s"
  "unused_bits (check_reserved_bits E flags s) = unused_bits s"
  "action_buffers (check_reserved_bits E flags s) = action_buffers s"
  "log (check_reserved_bits E flags s) =
     log s @ (if drop_bit total_known_events flags \<noteq> 0 \<and> verbose_malformed_swf E
              then [UnknownEventType flags] else [])"
  by (simp_all add: check_reserved_bits_def log_swferror_def)

lemma readPlaceActions_loop_Break:
  "readPlaceActions_event E v ts = Inr (Break r) \<Longrightarrow> readPlaceActions_loop E v ts = Inr r"
  by (simp add: readPlaceActions_loop.simps [of E v ts])

lemma readPlaceActions_loop_Continue:
  "readPlaceActions_event E v ts = Inr (Continue ts') \<Longrightarrow>
   readPlaceActions_loop E v ts = readPlaceActions_loop E v ts'"
  by (simp add: readPlaceActions_loop.simps [of E v ts])

lemma run_rounds_loop:
  "run_rounds E v n ts = Some ts' \<Longrightarrow>
   readPlaceActions_loop E v ts = readPlaceActions_loop E v ts'"
proof (induction n arbitrary: ts)
  case 0
  then show ?case by simp
next
  case (Suc n)
  then obtain ts1 where 1: "readPlaceActions_event E v ts = Inr (Continue ts1)"
    and 2: "run_rounds E v n ts1 = Some ts'"
    by (auto split: sum.splits loop_exit.splits)
  from readPlaceActions_loop_Continue [OF 1] Suc.IH [OF 2] show ?case by simp
qed

lemma run_rounds_handlers:
  "run_rounds E v n (t, s) = Some (t', s') \<Longrightarrow>
   \<exists>evs. t' = t\<lparr>m_event_handlers := m_event_handlers t @ evs\<rparr>"
proof (induction n arbitrary: t s)
  case 0
  then show ?case by (intro exI [of _ "[]"]) simp
next
  case (Suc n)
  then obtain t1 s1 where 1: "readPlaceActions_event E v (t, s) = Inr (Continue (t1, s1))"
    and 2: "run_rounds E v n (t1, s1) = Some (t', s')"
    by (auto split: sum.splits loop_exit.splits)
  from readPlaceActions_event_Continue_tag [OF 1] obtain evs1 where
    "t1 = t\<lparr>m_event_handlers := m_event_handlers t @ evs1\<rparr>" by blast
  moreover from Suc.IH [OF 2] obtain evs2 where
    "t' = t1\<lparr>m_event_handlers := m_event_handlers t1 @ evs2\<rparr>" by blast
  ultimately show ?case by (intro exI [of _ "evs1 @ evs2"]) simp
qed

text \<open>
  Claim C9. Before the first entry the event table decoder consumes a header: the two
  bytes of the reserved field, then the word of all event flags, four bytes from
  version 6 on and two bytes before. When the bytes of the reserved field are there, the
  decoder fails only if the bytes of the flag word are missing; otherwise it stores the
  word and its result is the result of the loop over the entries, started 6 or 4 bytes
  behind the start of the table. A reserved field that is not zero adds one message to
  the log (when malformed-SWF messages are enabled) and changes nothing else.
\<close>

theorem event_table_header:
  assumes "rest s = r0 # r1 # bs"
    and "n = (if v \<ge> 6 then 6 else 4)"
    and "s3 = (advance n s)\<lparr>log := log s @ (if le16 r0 r1 \<noteq> 0 \<and> verbose_malformed_swf E
                 then [ReservedFieldNonzero (le16 r0 r1)] else [])\<rparr>"
  shows "readPlaceActions E v (t, s) =
     (if v \<ge> 6
      then (case bs of
              f0 # f1 # f2 # f3 # _ \<Rightarrow>
                readPlaceActions_loop E v (t\<lparr>all_event_flags := le32 f0 f1 f2 f3\<rparr>, s3)
            | _ \<Rightarrow> Inl TruncatedInput)
      else (case bs of
              f0 # f1 # _ \<Rightarrow>
                readPlaceActions_loop E v (t\<lparr>all_event_flags := ucast (le16 f0 f1)\<rparr>, s3)
            | _ \<Rightarrow> Inl TruncatedInput)) \<and>
     rest s3 = drop n (rest s) \<and> position s3 = position s + n \<and> unused_bits s3 = [] \<and>
     action_buffers s3 = action_buffers s"
proof -
  define lg where "lg = log s @ (if le16 r0 r1 \<noteq> 0 \<and> verbose_malformed_swf E
                 then [ReservedFieldNonzero (le16 r0 r1)] else [])"
  define s2 where "s2 = (if le16 r0 r1 \<noteq> 0
      then log_swferror E (ReservedFieldNonzero (le16 r0 r1)) (advance 2 s) else advance 2 s)"
  have s2: "s2 = (advance 2 s)\<lparr>log := lg\<rparr>"
    by (simp add: s2_def lg_def log_swferror_def)
  have hd: "readPlaceActions E v (t, s) =
      bnd (read_event_flags v s2)
        (\<lambda>(flags, s3). readPlaceActions_loop E v (t\<lparr>all_event_flags := flags\<rparr>, s3))"
    using assms(1) by (simp add: readPlaceActions_def read_u16_eq Let_def s2_def)
  have r2: "rest s2 = bs"
    using assms(1) by (simp add: s2)
  have "readPlaceActions E v (t, s) =
     (if v \<ge> 6
      then (case bs of
              f0 # f1 # f2 # f3 # _ \<Rightarrow>
                readPlaceActions_loop E v (t\<lparr>all_event_flags := le32 f0 f1 f2 f3\<rparr>, s3)
            | _ \<Rightarrow> Inl TruncatedInput)
      else (case bs of
              f0 # f1 # _ \<Rightarrow>
                readPlaceActions_loop E v (t\<lparr>all_event_flags := ucast (le16 f0 f1)\<rparr>, s3)
            | _ \<Rightarrow> Inl TruncatedInput))"
    unfolding hd
    using r2 assms(2,3)
    by (simp add: read_event_flags_def read_u32_eq read_u16_eq s2 advance_log_update lg_def
        split: list.split)
  moreover have "rest s3 = drop n (rest s) \<and> position s3 = position s + n \<and>
      unused_bits s3 = [] \<and> action_buffers s3 = action_buffers s"
    by (simp add: assms(3))
  ultimately show ?thesis by simp
qed


theorem event_table_header_witness:
  "readPlaceActions test_collaborators 6 (new_tag, empty_event_table) =
     Inr (new_tag\<lparr>all_event_flags := 3\<rparr>,
          (advance 10 empty_event_table)\<lparr>log := [ReservedFieldNonzero 1]\<rparr>)"
proof -
  have r: "rest empty_event_table = 1 # 0 # [3, 0, 0, 0, 0, 0, 0, 0]"
    by (simp add: empty_event_table_def tag_bytes_def)
  have n: "(6 :: nat) = (if (6 :: int) \<ge> 6 then 6 else 4)"
    by simp
  have s3: "(advance 6 empty_event_table)\<lparr>log := [ReservedFieldNonzero 1]\<rparr> =
      (advance 6 empty_event_table)\<lparr>log := log empty_event_table
         @ (if le16 1 0 \<noteq> 0 \<and> verbose_malformed_swf test_collaborators
            then [ReservedFieldNonzero (le16 1 0)] else [])\<rparr>"
    by (simp add: empty_event_table_def tag_bytes_def test_collaborators_def le16_def)
  from event_table_header [OF r n s3, of new_tag]
  have "readPlaceActions test_collaborators 6 (new_tag, empty_event_table) =
      readPlaceActions_loop test_collaborators 6
        (new_tag\<lparr>all_event_flags := le32 3 0 0 0\<rparr>,
         (advance 6 empty_event_table)\<lparr>log := [ReservedFieldNonzero 1]\<rparr>)"
    by simp
  also have "\<dots> = Inr (new_tag\<lparr>all_event_flags := 3\<rparr>,
          (advance 10 empty_event_table)\<lparr>log := [ReservedFieldNonzero 1]\<rparr>)"
    by code_simp
  finally show ?thesis .
qed

text \<open>
  Claim C5. When the declared length of an entry is greater than the number of bytes
  left before the end of the tag, the loop stops there and returns normally: the record
  is the one the round started with, so no registration is made for the entry; the
  cursor stands right behind the length field, 8 (from version 6 on) or 6 bytes after
  the start of the entry, and not behind the end of the tag; one message is logged
  (when malformed-SWF messages are enabled).
\<close>

theorem event_length_beyond_tag:
  assumes "read_event_flags v (align s) = Inr (flags, s1)" and "flags \<noteq> 0"
    and "read_u32 s1 = Inr (event_length, s2)"
    and "get_tag_end_position s2 - get_position s2 < unat event_length"
  shows "readPlaceActions_loop E v (t, s) =
           Inr (t, s2\<lparr>log := log s2 @ (if verbose_malformed_swf E
                  then [EventLengthBeyondTag event_length (length (rest s2))] else [])\<rparr>) \<and>
         rest s2 = drop (if v \<ge> 6 then 8 else 6) (rest s) \<and>
         position s2 = position s + (if v \<ge> 6 then 8 else 6) \<and>
         get_position s2 \<le> get_tag_end_position s2"
proof -
  have "readPlaceActions_event E v (t, s) =
      Inr (Break (t, log_swferror E
        (EventLengthBeyondTag event_length (get_tag_end_position s2 - get_position s2)) s2))"
    using assms by (simp add: readPlaceActions_event_def)
  then have "readPlaceActions_loop E v (t, s) =
      Inr (t, log_swferror E
        (EventLengthBeyondTag event_length (get_tag_end_position s2 - get_position s2)) s2)"
    by (rule readPlaceActions_loop_Break)
  moreover have "rest s2 = drop (if v \<ge> 6 then 8 else 6) (rest s) \<and>
      position s2 = position s + (if v \<ge> 6 then 8 else 6)"
    using assms(1,3)
    by (auto simp: read_event_flags_def read_u32_Inr read_u16_Inr bnd_eq_Inr split: if_splits)
  ultimately show ?thesis
    by (simp add: log_swferror_def get_position_def get_tag_end_position_def)
qed

theorem event_length_beyond_tag_witness:
  "readPlaceActions_loop test_collaborators 6 (new_tag, beyond_tag_entry) =
     Inr (new_tag, (advance 8 beyond_tag_entry)\<lparr>log := [EventLengthBeyondTag 200 3]\<rparr>)"
proof -
  have 1: "read_event_flags 6 (align beyond_tag_entry) = Inr (1, advance 4 beyond_tag_entry)"
    by code_simp
  have 2: "(1 :: 32 word) \<noteq> 0"
    by simp
  have 3: "read_u32 (advance 4 beyond_tag_entry) = Inr (200, advance 8 beyond_tag_entry)"
    by code_simp
  have 4: "get_tag_end_position (advance 8 beyond_tag_entry)
      - get_position (advance 8 beyond_tag_entry) < unat (200 :: 32 word)"
    by code_simp
  from event_length_beyond_tag [OF 1 2 3 4, of test_collaborators new_tag] show ?thesis
    by (simp add: test_collaborators_def beyond_tag_entry_def tag_bytes_def)
qed

text \<open>
  Claim C10. When the action reader has read more bytes than the entry declares, the loop
  stops there and returns normally, with one message logged (when malformed-SWF messages
  are enabled). The record it returns is the record as the rounds before had left it:
  the registrations of the earlier entries are all there, followed by nothing from the
  failing entry.
\<close>

theorem overlong_actions_keep_earlier_events:
  assumes "run_rounds E v n (t0, s0) = Some (t, s)"
    and "read_event_flags v (align s) = Inr (flags, s1)" and "flags \<noteq> 0"
    and "read_u32 s1 = Inr (declared, s2)"
    and "\<not> get_tag_end_position s2 - get_position s2 < unat declared"
    and "read_key_code E flags declared s2 = Inr ((ch, event_length), s3)"
    and "action_read E s3 = Inr (action, s4)"
    and "length action > unat event_length"
  shows "readPlaceActions_loop E v (t0, s0) =
           Inr (t, s4\<lparr>log := log s4 @ (if verbose_malformed_swf E
                  then [ReadMoreThanEventLength event_length (length action)] else [])\<rparr>) \<and>
         (\<exists>evs. t = t0\<lparr>m_event_handlers := m_event_handlers t0 @ evs\<rparr>)"
proof -
  have "readPlaceActions_event E v (t, s) =
      Inr (Break (t, log_swferror E (ReadMoreThanEventLength event_length (length action)) s4))"
    using assms(2-) by (simp add: readPlaceActions_event_def)
  then have "readPlaceActions_loop E v (t, s) =
      Inr (t, log_swferror E (ReadMoreThanEventLength event_length (length action)) s4)"
    by (rule readPlaceActions_loop_Break)
  with run_rounds_loop [OF assms(1)] run_rounds_handlers [OF assms(1)] show ?thesis
    by (simp add: log_swferror_def)
qed

theorem overlong_actions_keep_earlier_events_witness:
  "readPlaceActions_loop test_collaborators 6 (new_tag, two_entries) =
     Inr (new_tag\<lparr>m_event_handlers :=
            [\<lparr>m_event = \<lparr>m_id = ENTER_FRAME, m_key_code = 0\<rparr>, m_action_buffer = Some 0\<rparr>]\<rparr>,
          (advance 19 two_entries)\<lparr>action_buffers := [[0]],
            log := [ReadMoreThanEventLength 1 2]\<rparr>)"
proof -
  have 0: "run_rounds test_collaborators 6 1 (new_tag, two_entries) =
      Some (new_tag\<lparr>m_event_handlers :=
            [\<lparr>m_event = \<lparr>m_id = ENTER_FRAME, m_key_code = 0\<rparr>, m_action_buffer = Some 0\<rparr>]\<rparr>,
          (advance 9 two_entries)\<lparr>action_buffers := [[0]]\<rparr>)"
    by code_simp
  have 1: "read_event_flags 6 (align ((advance 9 two_entries)\<lparr>action_buffers := [[0]]\<rparr>)) =
      Inr (1, (advance 13 two_entries)\<lparr>action_buffers := [[0]]\<rparr>)"
    by code_simp
  have 2: "(1 :: 32 word) \<noteq> 0"
    by simp
  have 3: "read_u32 ((advance 13 two_entries)\<lparr>action_buffers := [[0]]\<rparr>) =
      Inr (1, (advance 17 two_entries)\<lparr>action_buffers := [[0]]\<rparr>)"
    by code_simp
  have 4: "\<not> get_tag_end_position ((advance 17 two_entries)\<lparr>action_buffers := [[0]]\<rparr>)
      - get_position ((advance 17 two_entries)\<lparr>action_buffers := [[0]]\<rparr>)
      < unat (1 :: 32 word)"
    by code_simp
  have 5: "read_key_code test_collaborators 1 1
        ((advance 17 two_entries)\<lparr>action_buffers := [[0]]\<rparr>) =
      Inr ((0, 1), (advance 17 two_entries)\<lparr>action_buffers := [[0]]\<rparr>)"
    by code_simp
  have 6: "action_read test_collaborators ((advance 17 two_entries)\<lparr>action_buffers := [[0]]\<rparr>) =
      Inr ([7, 0], (advance 19 two_entries)\<lparr>action_buffers := [[0]]\<rparr>)"
    by code_simp
  have 7: "length ([7, 0] :: byte list) > unat (1 :: 32 word)"
    by simp
  from overlong_actions_keep_earlier_events [OF 0 1 2 3 4 5 6 7] show ?thesis
    by (simp add: test_collaborators_def two_entries_def tag_bytes_def advance_def align_def)
qed

text \<open>
  Claim C6 and the code: the source builds every registration of a round from the round's
  one \<open>std::auto_ptr\<close> to the action buffer, so the registrations are meant to be built
  on one buffer, but the pointer is handed over to the first of them. For an entry with
  the bits of mouse-down and mouse-up set, two registrations are pushed, as the claim
  says; the first one holds the buffer and the second one a null pointer.
\<close>

theorem second_registration_gets_no_buffer:
  "readPlaceActions_event test_collaborators 6
     (new_tag, tag_bytes [48, 0, 0, 0, 1, 0, 0, 0, 0]) =
   Inr (Continue (new_tag\<lparr>m_event_handlers :=
          [\<lparr>m_event = \<lparr>m_id = MOUSE_DOWN, m_key_code = 0\<rparr>, m_action_buffer = Some 0\<rparr>,
           \<lparr>m_event = \<lparr>m_id = MOUSE_UP, m_key_code = 0\<rparr>, m_action_buffer = None\<rparr>]\<rparr>,
        \<lparr>rest = [], position = 9, unused_bits = [], action_buffers = [[0]], log = []\<rparr>)) \<and>
   Some (0 :: nat) \<noteq> None"
  by code_simp

text \<open>
  Claim C2, as amended. A round that runs to its end consumes, behind the length field,
  exactly the declared number of bytes: the key code byte first when bit 17 of the flag
  word is set, which leaves a budget of the declared length less one, otherwise the
  whole declared length. The action buffer that the action reader returns is the run of
  input bytes that the reader consumed, copied as they are; the reader decides where it
  ends, its length is at most the budget, and the bytes of the budget beyond it are
  skipped. The buffer stays allocated when a registration took it, that is when one of
  the bits 0 to 18 is set, and is freed otherwise. (With bit 17 set and a declared length
  of 0 the budget wraps around; that case is left out.)
\<close>

theorem event_body_consumption:
  assumes "readPlaceActions_event E v (t, s) = Inr (Continue (t', s'))"
  shows "\<exists>flags s1 declared s2 key ch budget s3 action s4 n.
      read_event_flags v (align s) = Inr (flags, s1) \<and>
      read_u32 s1 = Inr (declared, s2) \<and>
      key = (if bit flags 17 then 1 else 0) \<and>
      budget = (if bit flags 17 then declared - 1 else declared) \<and>
      read_key_code E flags declared s2 = Inr ((ch, budget), s3) \<and>
      action_read E s3 = Inr (action, s4) \<and>
      action_buffer_read E (drop key (rest s2)) = Inr n \<and>
      action = take n (drop key (rest s2)) \<and>
      length action = n \<and>
      n \<le> unat budget \<and>
      action_buffers s' =
        (if \<exists>i < 19. bit flags i then action_buffers s @ [action] else action_buffers s) \<and>
      (if bit flags 17 \<and> declared = 0 then True
       else unat budget = unat declared - key \<and>
            rest s' = drop (unat declared) (rest s2) \<and>
            position s' = position s2 + unat declared)"
proof -
  from assms obtain flags s1 declared s2 ch len s3 action s4 s5 where
    1: "read_event_flags v (align s) = Inr (flags, s1)" and
    2: "read_u32 s1 = Inr (declared, s2)" and
    fit: "\<not> get_tag_end_position s2 - get_position s2 < unat declared" and
    3: "read_key_code E flags declared s2 = Inr ((ch, len), s3)" and
    4: "action_read E s3 = Inr (action, s4)" and
    le: "length action \<le> unat len" and
    5: "skip_excess E len (length action) s4 = (True, s5)" and
    6: "(t', s') = push_event_handlers E flags ch action (t, check_reserved_bits E flags s5)"
    unfolding readPlaceActions_event_Continue by blast
  define key :: nat where "key = (if bit flags 17 then 1 else 0)"
  from 3 have s3: "rest s3 = drop key (rest s2)" "position s3 = position s2 + key"
    "action_buffers s3 = action_buffers s2"
    and len: "len = (if bit flags 17 then declared - 1 else declared)"
    and k: "key \<le> length (rest s2)"
    by (auto simp: read_key_code_Inr key_def split: if_splits)
  from 4 obtain n where n: "action_buffer_read E (rest s3) = Inr n" "n \<le> length (rest s3)"
    "action = take n (rest s3)" and s4: "s4 = advance n s3"
    unfolding action_read_Inr by blast
  from n have la: "length action = n" by simp
  from skip_excess_True [OF 5 le] la s4 have s5: "rest s5 = drop (unat len) (rest s3)"
    "position s5 = position s3 + unat len" "action_buffers s5 = action_buffers s3"
    using le by (simp_all add: add.commute)
  from 1 have b1: "action_buffers s1 = action_buffers s"
    by (auto simp: read_event_flags_def read_u32_Inr read_u16_Inr bnd_eq_Inr split: if_splits)
  from 2 have b2: "action_buffers s2 = action_buffers s1"
    by (auto simp: read_u32_Inr)
  from push_event_handlers_stream [OF 6 [symmetric]]
  have s': "rest s' = rest s5" "position s' = position s5"
    by simp_all
  from push_event_handlers_buffers [OF 6 [symmetric]] s5 s3 b1 b2
  have bufs: "action_buffers s' =
        (if \<exists>i < 19. bit flags i then action_buffers s @ [action] else action_buffers s)"
    by simp
  have tail: "if bit flags 17 \<and> declared = 0 then True
       else unat len = unat declared - key \<and>
            rest s' = drop (unat declared) (rest s2) \<and>
            position s' = position s2 + unat declared"
  proof (cases "bit flags 17 \<and> declared = 0")
    case True
    then show ?thesis by simp
  next
    case False
    then have u: "unat len = unat declared - key" and "key \<le> unat declared"
      by (auto simp: len key_def unat_minus_one unat_gt_0 Suc_leI)
    then have "key + unat len = unat declared" by simp
    with s' s5 s3 u False show ?thesis
      by (simp add: add.commute add.assoc)
  qed
  from n s3 have n': "action_buffer_read E (drop key (rest s2)) = Inr n"
    "action = take n (drop key (rest s2))"
    by simp_all
  from le la have nb: "n \<le> unat len" by simp
  show ?thesis
    apply (rule exI [of _ flags], rule exI [of _ s1], rule exI [of _ declared],
        rule exI [of _ s2], rule exI [of _ key], rule exI [of _ ch],
        rule exI [of _ len],
        rule exI [of _ s3], rule exI [of _ action], rule exI [of _ s4], rule exI [of _ n])
    apply (intro conjI)
               apply (rule 1)
              apply (rule 2)
             apply (rule key_def)
            apply (rule len)
           apply (rule 3)
          apply (rule 4)
         apply (rule n'(1))
        apply (rule n'(2))
       apply (rule la)
      apply (rule nb)
     apply (rule bufs)
    apply (rule tail)
    done
qed

theorem event_body_consumption_witness:
  "\<exists>t' s' n. readPlaceActions_event test_collaborators 6 (new_tag, key_press_entry) =
       Inr (Continue (t', s')) \<and>
     action_buffers s' = [[0]] \<and> position s' = 8 + 5 \<and>
     action_buffer_read test_collaborators [0, 9, 9, 9] = Inr n \<and>
     n \<le> unat (5 - 1 :: 32 word) \<and> take n [0, 9, 9, 9 :: byte] = [0]"
proof -
  have run: "readPlaceActions_event test_collaborators 6 (new_tag, key_press_entry) =
      Inr (Continue (new_tag\<lparr>m_event_handlers :=
             [\<lparr>m_event = \<lparr>m_id = KEY_PRESS, m_key_code = 65\<rparr>, m_action_buffer = Some 0\<rparr>]\<rparr>,
           (advance 13 key_press_entry)\<lparr>action_buffers := [[0]],
             log := [SkippingExcessiveBytes 4 1]\<rparr>))"
    by code_simp
  have fl: "read_event_flags 6 (align key_press_entry) = Inr (131072, advance 4 key_press_entry)"
    by code_simp
  have ln: "read_u32 (advance 4 key_press_entry) = Inr (5, advance 8 key_press_entry)"
    by code_simp
  have b: "bit (131072 :: 32 word) 17"
    by simp
  from event_body_consumption [OF run] fl ln b
  obtain n where
    "action_buffer_read test_collaborators (drop 1 (rest (advance 8 key_press_entry))) = Inr n"
    "n \<le> unat (5 - 1 :: 32 word)"
    by auto
  then have n: "action_buffer_read test_collaborators [0, 9, 9, 9] = Inr n"
    "n \<le> unat (5 - 1 :: 32 word)"
    by (simp_all add: key_press_entry_def tag_bytes_def)
  then have "n = 1"
    by (simp add: test_collaborators_def)
  with n have "action_buffer_read test_collaborators [0, 9, 9, 9] = Inr n \<and>
     n \<le> unat (5 - 1 :: 32 word) \<and> take n [0, 9, 9, 9 :: byte] = [0]"
    by simp
  with run show ?thesis
    by (simp add: key_press_entry_def tag_bytes_def)
qed

text \<open>
  Claim C2, as stated, fails: with bit 17 set and a declared length of 5, an action block
  that ends after one byte gives a captured buffer of one byte, not of four; the three
  bytes left of the budget are skipped.
\<close>

theorem captured_length_counterexample:
  "readPlaceActions_event test_collaborators 6
     (new_tag, tag_bytes [0, 0, 2, 0, 5, 0, 0, 0, 65, 0, 9, 9, 9]) =
   Inr (Continue (new_tag\<lparr>m_event_handlers :=
          [\<lparr>m_event = \<lparr>m_id = KEY_PRESS, m_key_code = 65\<rparr>, m_action_buffer = Some 0\<rparr>]\<rparr>,
        \<lparr>rest = [], position = 13, unused_bits = [], action_buffers = [[0]],
         log = [SkippingExcessiveBytes 4 1]\<rparr>)) \<and>
   length ([0] :: byte list) \<noteq> 5 - 1"
  by code_simp

section \<open>Executing a Move\<close>

lemma readPlaceObject2_has:
  assumes "readPlaceObject2 E v p2 (t, s) = Inr (t', s')"
  shows "\<exists>f s0. readPlaceObject2_flags v p2 (align s) = Inr (f, s0) \<and>
           m_has_cxform t' = (has_cxform f \<or> m_has_cxform t) \<and>
           m_has_matrix t' = (has_matrix f \<or> m_has_matrix t) \<and>
           (\<not> has_ratio f \<longrightarrow> m_ratio t' = noRatioValue E) \<and>
           (\<not> has_clip_bracket f \<longrightarrow> m_clip_depth t' = noClipDepthValue E)"
  using readPlaceObject2_tag [OF assms]
  apply (elim exE conjE)
  apply (intro exI conjI, assumption)
  apply simp_all
  done

text \<open>
  Claim C7. Take a record that the decoder of the extended tags filled, starting from a
  record on which neither m_has_matrix nor m_has_cxform was set, and whose place type is
  Move, and execute it on a display list that has an instance at the record's depth. The
  instance at that depth afterwards has the record's colour transform exactly when the
  has-cxform flag was set in the tag, and its former one otherwise; likewise for the
  matrix and the has-matrix flag; its ratio and clip depth are unchanged when the record
  holds the sentinel, which it does when the flag was not set. Its identity, its event
  registrations, its character and its name are untouched, and nothing else in the
  sprite changes.
\<close>

theorem move_updates_present_fields:
  assumes "readPlaceObject2 E v p2 (t, s) = Inr (t', s')"
    and "\<not> m_has_matrix t" and "\<not> m_has_cxform t"
    and "m_place_type t' = MOVE"
    and "display_list m (m_depth t') = Some ch"
  shows "\<exists>f s0 ch'. readPlaceObject2_flags v p2 (align s) = Inr (f, s0) \<and>
     execute E t' m = m\<lparr>display_list := (display_list m)(m_depth t' \<mapsto> ch')\<rparr> \<and>
     inst_cxform ch' = (if has_cxform f then m_color_transform t' else inst_cxform ch) \<and>
     inst_matrix ch' = (if has_matrix f then m_matrix t' else inst_matrix ch) \<and>
     inst_ratio ch' = (if m_ratio t' = noRatioValue E then inst_ratio ch else m_ratio t') \<and>
     (\<not> has_ratio f \<longrightarrow> inst_ratio ch' = inst_ratio ch) \<and>
     inst_clip_depth ch' =
       (if m_clip_depth t' = noClipDepthValue E then inst_clip_depth ch else m_clip_depth t') \<and>
     (\<not> has_clip_bracket f \<longrightarrow> inst_clip_depth ch' = inst_clip_depth ch) \<and>
     inst_id ch' = inst_id ch \<and>
     inst_event_handlers ch' = inst_event_handlers ch \<and>
     inst_character_id ch' = inst_character_id ch \<and>
     inst_name ch' = inst_name ch"
proof -
  from readPlaceObject2_has [OF assms(1)] assms(2,3) obtain f s0 where
    f: "readPlaceObject2_flags v p2 (align s) = Inr (f, s0)" and
    h: "m_has_cxform t' = has_cxform f" "m_has_matrix t' = has_matrix f" and
    r: "\<not> has_ratio f \<longrightarrow> m_ratio t' = noRatioValue E" and
    c: "\<not> has_clip_bracket f \<longrightarrow> m_clip_depth t' = noClipDepthValue E"
    by auto
  define ch' where "ch' =
     ch\<lparr>inst_cxform := (if has_cxform f then m_color_transform t' else inst_cxform ch),
        inst_matrix := (if has_matrix f then m_matrix t' else inst_matrix ch),
        inst_ratio := (if m_ratio t' = noRatioValue E then inst_ratio ch else m_ratio t'),
        inst_clip_depth :=
          (if m_clip_depth t' = noClipDepthValue E then inst_clip_depth ch
           else m_clip_depth t')\<rparr>"
  have "execute E t' m = m\<lparr>display_list := (display_list m)(m_depth t' \<mapsto> ch')\<rparr>"
    using assms(4,5) h by (simp add: execute_def move_display_object_def ch'_def)
  with f r c show ?thesis
    by (intro exI [of _ f] exI [of _ s0] exI [of _ ch']) (simp add: ch'_def)
qed


theorem move_updates_present_fields_witness:
  "\<exists>t' s' ch'. readPlaceObject2 test_collaborators 6 True (new_tag, tag_bytes [5, 1, 0, 170]) =
       Inr (t', s') \<and>
     m_place_type t' = MOVE \<and> m_depth t' = - 16383 \<and>
     display_list (execute test_collaborators t' test_sprite) (- 16383) = Some ch' \<and>
     inst_matrix ch' = [170] \<and> inst_cxform ch' = [1, 2, 3, 4] \<and> inst_ratio ch' = 5 \<and>
     inst_clip_depth ch' = - 1000000 \<and> inst_id ch' = 0 \<and>
     inst_event_handlers ch' =
       [\<lparr>m_event = \<lparr>m_id = LOAD, m_key_code = 0\<rparr>, m_action_buffer = Some 0\<rparr>]"
proof -
  define t' where "t' = new_tag\<lparr>m_depth := - 16383, m_has_matrix := True, m_matrix := [170],
    m_ratio := - 1, m_clip_depth := - 1000000, m_place_type := MOVE\<rparr>"
  define ch :: "(byte list, byte list) placed_character" where "ch = \<lparr>inst_id = 0, inst_character_id = 7, inst_name = None,
                 inst_event_handlers =
                   [\<lparr>m_event = \<lparr>m_id = LOAD, m_key_code = 0\<rparr>, m_action_buffer = Some 0\<rparr>],
                 inst_cxform = [1, 2, 3, 4], inst_matrix = [9 :: byte], inst_ratio = 5,
                 inst_clip_depth = - 1000000\<rparr>"
  have run: "readPlaceObject2 test_collaborators 6 True (new_tag, tag_bytes [5, 1, 0, 170]) =
      Inr (t', advance 4 (tag_bytes [5, 1, 0, 170]))"
    unfolding t'_def by code_simp
  have fresh: "\<not> m_has_matrix new_tag" "\<not> m_has_cxform new_tag"
    by (simp_all add: new_tag_def)
  have mv: "m_place_type t' = MOVE"
    by (simp add: t'_def)
  have occ: "display_list test_sprite (m_depth t') = Some ch"
    by (simp add: t'_def test_sprite_def ch_def)
  have fl: "readPlaceObject2_flags 6 True (align (tag_bytes [5, 1, 0, 170])) =
      Inr (flags_of_bytes False 5 0, advance 1 (tag_bytes [5, 1, 0, 170]))"
    by code_simp
  from move_updates_present_fields [OF run fresh mv occ] fl obtain ch' where
    ex: "execute test_collaborators t' test_sprite =
         test_sprite\<lparr>display_list := (display_list test_sprite)(m_depth t' \<mapsto> ch')\<rparr>" and
    flds: "inst_cxform ch' =
       (if has_cxform (flags_of_bytes False 5 0) then m_color_transform t' else inst_cxform ch)"
      "inst_matrix ch' =
       (if has_matrix (flags_of_bytes False 5 0) then m_matrix t' else inst_matrix ch)"
      "\<not> has_ratio (flags_of_bytes False 5 0) \<longrightarrow> inst_ratio ch' = inst_ratio ch"
      "\<not> has_clip_bracket (flags_of_bytes False 5 0) \<longrightarrow> inst_clip_depth ch' = inst_clip_depth ch"
      "inst_id ch' = inst_id ch" "inst_event_handlers ch' = inst_event_handlers ch"
    by auto
  from ex have "display_list (execute test_collaborators t' test_sprite) (- 16383) = Some ch'"
    by (simp add: t'_def)
  moreover from flds have "inst_matrix ch' = [170] \<and> inst_cxform ch' = [1, 2, 3, 4] \<and>
     inst_ratio ch' = 5 \<and> inst_clip_depth ch' = - 1000000 \<and> inst_id ch' = 0 \<and>
     inst_event_handlers ch' =
       [\<lparr>m_event = \<lparr>m_id = LOAD, m_key_code = 0\<rparr>, m_action_buffer = Some 0\<rparr>]"
    by (simp add: flags_of_bytes_def t'_def ch_def)
  moreover have "m_depth t' = - 16383"
    by (simp add: t'_def)
  ultimately show ?thesis
    using run mv by blast
qed

section \<open>The layout of the extended tags\<close>

lemma advance_0 [simp]: "unused_bits s = [] \<Longrightarrow> advance 0 s = s"
  by (simp add: advance_def align_def)

lemma cstring_append: "0 \<notin> set nm \<Longrightarrow> cstring (nm @ 0 # R) = Some (nm, R)"
  by (induction nm) auto

lemma po2_depth_at:
  "rest s = [d0, d1] @ R \<Longrightarrow>
   po2_depth E (t, s) =
     Inr (t\<lparr>m_depth := uint (le16 d0 d1) + staticDepthOffset E\<rparr>, advance 2 s)"
  by (simp add: po2_depth_def read_u16_eq)

lemma po2_character_id_at:
  assumes "rest s = P @ R" "unused_bits s = []" "b \<Longrightarrow> P = [c0, c1]" "\<not> b \<Longrightarrow> P = []"
  shows "po2_character_id b (t, s) =
     Inr (t\<lparr>m_character_id := (if b then le16 c0 c1 else m_character_id t)\<rparr>,
          advance (length P) s)"
  using assms by (cases b) (simp_all add: po2_character_id_def read_u16_eq)

lemma call_reader_at:
  assumes "rest s = P @ R" "f (P @ R) = Inr (x, length P)"
  shows "call_reader f s = Inr (x, advance (length P) s)"
  using assms by (simp add: call_reader_def)

lemma po2_matrix_at:
  assumes "rest s = P @ R" "unused_bits s = []"
    "b \<Longrightarrow> matrix_read E (P @ R) = Inr (M, length P)" "\<not> b \<Longrightarrow> P = []"
  shows "po2_matrix E b (t, s) =
     Inr (t\<lparr>m_has_matrix := (b \<or> m_has_matrix t),
            m_matrix := (if b then M else m_matrix t)\<rparr>,
          advance (length P) s)"
  using assms by (cases b) (simp_all add: po2_matrix_def call_reader_at)

lemma po2_cxform_at:
  assumes "rest s = P @ R" "unused_bits s = []"
    "b \<Longrightarrow> cxform_read_rgba E (P @ R) = Inr (C, length P)" "\<not> b \<Longrightarrow> P = []"
  shows "po2_cxform E b (t, s) =
     Inr (t\<lparr>m_has_cxform := (b \<or> m_has_cxform t),
            m_color_transform := (if b then C else m_color_transform t)\<rparr>,
          advance (length P) s)"
  using assms by (cases b) (simp_all add: po2_cxform_def call_reader_at)

lemma po2_ratio_at:
  assumes "rest s = P @ R" "unused_bits s = []" "b \<Longrightarrow> P = [r0, r1]" "\<not> b \<Longrightarrow> P = []"
  shows "po2_ratio E b (t, s) =
     Inr (t\<lparr>m_ratio := (if b then uint (le16 r0 r1) else noRatioValue E)\<rparr>,
          advance (length P) s)"
  using assms by (cases b) (simp_all add: po2_ratio_def read_u16_eq)

lemma po2_name_at:
  assumes "rest s = P @ R" "unused_bits s = []" "b \<Longrightarrow> P = nm @ [0] \<and> 0 \<notin> set nm"
    "\<not> b \<Longrightarrow> P = []"
  shows "po2_name b (t, s) =
     Inr (t\<lparr>m_name := (if b then Some nm else m_name t)\<rparr>, advance (length P) s)"
  using assms by (cases b) (simp_all add: po2_name_def read_string_def cstring_append)

lemma po2_clip_depth_at:
  assumes "rest s = P @ R" "unused_bits s = []" "b \<Longrightarrow> P = [c0, c1]" "\<not> b \<Longrightarrow> P = []"
  shows "po2_clip_depth E b (t, s) =
     Inr (t\<lparr>m_clip_depth :=
            (if b then uint (le16 c0 c1) + staticDepthOffset E else noClipDepthValue E)\<rparr>,
          advance (length P) s)"
  using assms by (cases b) (simp_all add: po2_clip_depth_def read_u16_eq)

lemma po2_filters_at:
  assumes "rest s = P @ R" "unused_bits s = []"
    "b \<Longrightarrow> filter_factory_read E v (P @ R) = Inr ((), length P)" "\<not> b \<Longrightarrow> P = []"
  shows "po2_filters E v b (t, s) = Inr (t, advance (length P) s)"
  using assms by (cases b) (simp_all add: po2_filters_def call_reader_at)

lemma po2_discard_u8_at:
  assumes "rest s = P @ R" "unused_bits s = []" "b \<Longrightarrow> P = [x]" "\<not> b \<Longrightarrow> P = []"
  shows "po2_discard_u8 b (t, s) = Inr (t, advance (length P) s)"
  using assms by (cases b) (simp_all add: po2_discard_u8_def read_u8_eq)

lemma readPlaceObject2_flags_at:
  assumes "rest s = b0 # B1 @ R" "v8 = (\<not> p2 \<and> v \<ge> 8)" "v8 \<Longrightarrow> B1 = [b1]" "\<not> v8 \<Longrightarrow> B1 = []"
  shows "readPlaceObject2_flags v p2 (align s) =
     Inr (flags_of_bytes v8 b0 b1, advance (Suc (length B1)) s)"
  using assms by (cases v8) (auto simp: readPlaceObject2_flags_eq flags_of_bytes_def numeral_2_eq_2)

lemma po2_place_type_eq:
  "po2_place_type c m t =
     t\<lparr>m_place_type := (if c then (if m then REPLACE else PLACE)
                          else (if m then MOVE else REMOVE))\<rparr>"
  by (simp add: po2_place_type_def)

lemma readPlaceObject2_layout:
  assumes v8: "v8 = (\<not> p2 \<and> v \<ge> 8)"
    and f: "f = flags_of_bytes v8 b0 b1"
    and bytes: "rest s =
        b0 # (if v8 then [b1] else [])
        @ [d0, d1]
        @ (if has_char f then [c0, c1] else [])
        @ (if has_matrix f then MB else [])
        @ (if has_cxform f then CB else [])
        @ (if has_ratio f then [r0, r1] else [])
        @ (if has_name f then nm @ [0] else [])
        @ (if has_clip_bracket f then [k0, k1] else [])
        @ (if has_filters f then FB else [])
        @ (if has_blend_mode f then [bm] else [])
        @ (if has_bitmap_caching f then [bc] else [])
        @ R"
    and mx: "has_matrix f \<Longrightarrow> \<forall>xs. matrix_read E (MB @ xs) = Inr (M, length MB)"
    and cx: "has_cxform f \<Longrightarrow> \<forall>xs. cxform_read_rgba E (CB @ xs) = Inr (C, length CB)"
    and fl: "has_filters f \<Longrightarrow> \<forall>xs. filter_factory_read E v (FB @ xs) = Inr ((), length FB)"
    and nm: "has_name f \<Longrightarrow> 0 \<notin> set nm"
  shows "readPlaceObject2 E v p2 (t, s) =
     (case (if has_actions f
            then readPlaceActions E v
            else Inr)
           (t\<lparr>m_depth := uint (le16 d0 d1) + staticDepthOffset E,
              m_character_id := (if has_char f then le16 c0 c1 else m_character_id t),
              m_has_matrix := (has_matrix f \<or> m_has_matrix t),
              m_matrix := (if has_matrix f then M else m_matrix t),
              m_has_cxform := (has_cxform f \<or> m_has_cxform t),
              m_color_transform := (if has_cxform f then C else m_color_transform t),
              m_ratio := (if has_ratio f then uint (le16 r0 r1) else noRatioValue E),
              m_name := (if has_name f then Some nm else m_name t),
              m_clip_depth := (if has_clip_bracket f then uint (le16 k0 k1) + staticDepthOffset E
                               else noClipDepthValue E)\<rparr>,
            advance (length (rest s) - length R) s) of
        Inl e \<Rightarrow> Inl e
      | Inr (t', s') \<Rightarrow>
          Inr (t'\<lparr>m_place_type :=
                 (if has_char f then (if flag_move f then REPLACE else PLACE)
                  else (if flag_move f then MOVE else REMOVE))\<rparr>, s'))"
proof -
  define B1 where "B1 = (if v8 then [b1] else [])"
  define PC where "PC = (if has_char f then [c0, c1] else [])"
  define PM where "PM = (if has_matrix f then MB else [])"
  define PX where "PX = (if has_cxform f then CB else [])"
  define PR where "PR = (if has_ratio f then [r0, r1] else [])"
  define PN where "PN = (if has_name f then nm @ [0] else [])"
  define PD where "PD = (if has_clip_bracket f then [k0, k1] else [])"
  define PF where "PF = (if has_filters f then FB else [])"
  define PB where "PB = (if has_blend_mode f then [bm] else [])"
  define PK where "PK = (if has_bitmap_caching f then [bc] else [])"
  define R9 where "R9 = PK @ R"
  define R8 where "R8 = PB @ R9"
  define R7 where "R7 = PF @ R8"
  define R6 where "R6 = PD @ R7"
  define R5 where "R5 = PN @ R6"
  define R4 where "R4 = PR @ R5"
  define R3 where "R3 = PX @ R4"
  define R2 where "R2 = PM @ R3"
  define R1 where "R1 = PC @ R2"
  define R0 where "R0 = [d0, d1] @ R1"
  note Rs = R0_def R1_def R2_def R3_def R4_def R5_def R6_def R7_def R8_def R9_def
  have rs: "rest s = b0 # B1 @ R0"
    using bytes
    by (simp only: Rs B1_def PC_def PM_def PX_def PR_def PN_def PD_def PF_def PB_def PK_def
        append_assoc)
  define s0 where "s0 = advance (Suc (length B1)) s"
  define s1 where "s1 = advance 2 s0"
  define s2 where "s2 = advance (length PC) s1"
  define s3 where "s3 = advance (length PM) s2"
  define s4 where "s4 = advance (length PX) s3"
  define s5 where "s5 = advance (length PR) s4"
  define s6 where "s6 = advance (length PN) s5"
  define s7 where "s7 = advance (length PD) s6"
  define s8 where "s8 = advance (length PF) s7"
  define s9 where "s9 = advance (length PB) s8"
  define s10 where "s10 = advance (length PK) s9"
  define t1 where "t1 = t\<lparr>m_depth := uint (le16 d0 d1) + staticDepthOffset E\<rparr>"
  define t2 where "t2 = t1\<lparr>m_character_id := (if has_char f then le16 c0 c1 else m_character_id t1)\<rparr>"
  define t3 where "t3 = t2\<lparr>m_has_matrix := (has_matrix f \<or> m_has_matrix t2),
                          m_matrix := (if has_matrix f then M else m_matrix t2)\<rparr>"
  define t4 where "t4 = t3\<lparr>m_has_cxform := (has_cxform f \<or> m_has_cxform t3),
                          m_color_transform := (if has_cxform f then C else m_color_transform t3)\<rparr>"
  define t5 where "t5 = t4\<lparr>m_ratio := (if has_ratio f then uint (le16 r0 r1) else noRatioValue E)\<rparr>"
  define t6 where "t6 = t5\<lparr>m_name := (if has_name f then Some nm else m_name t5)\<rparr>"
  define t7 where "t7 = t6\<lparr>m_clip_depth :=
      (if has_clip_bracket f then uint (le16 k0 k1) + staticDepthOffset E
       else noClipDepthValue E)\<rparr>"
  have f0: "readPlaceObject2_flags v p2 (align s) = Inr (f, s0)"
    unfolding f s0_def
    by (rule readPlaceObject2_flags_at [OF rs v8]) (simp_all add: B1_def)
  have r0: "rest s0 = [d0, d1] @ R1"
    by (simp add: s0_def rs R0_def)
  have 1: "po2_depth E (t, s0) = Inr (t1, s1)"
    unfolding t1_def s1_def by (rule po2_depth_at [OF r0])
  have r1: "rest s1 = PC @ R2" "unused_bits s1 = []"
    by (simp_all add: s1_def r0 R1_def)
  have 2: "po2_character_id (has_char f) (t1, s1) = Inr (t2, s2)"
    unfolding t2_def s2_def by (rule po2_character_id_at [OF r1]) (simp_all add: PC_def)
  have r2: "rest s2 = PM @ R3" "unused_bits s2 = []"
    by (simp_all add: s2_def r1 R2_def)
  have 3: "po2_matrix E (has_matrix f) (t2, s2) = Inr (t3, s3)"
    unfolding t3_def s3_def
    by (rule po2_matrix_at [OF r2]) (simp_all add: PM_def mx)
  have r3: "rest s3 = PX @ R4" "unused_bits s3 = []"
    by (simp_all add: s3_def r2 R3_def)
  have 4: "po2_cxform E (has_cxform f) (t3, s3) = Inr (t4, s4)"
    unfolding t4_def s4_def
    by (rule po2_cxform_at [OF r3]) (simp_all add: PX_def cx)
  have r4: "rest s4 = PR @ R5" "unused_bits s4 = []"
    by (simp_all add: s4_def r3 R4_def)
  have 5: "po2_ratio E (has_ratio f) (t4, s4) = Inr (t5, s5)"
    unfolding t5_def s5_def by (rule po2_ratio_at [OF r4]) (simp_all add: PR_def)
  have r5: "rest s5 = PN @ R6" "unused_bits s5 = []"
    by (simp_all add: s5_def r4 R5_def)
  have 6: "po2_name (has_name f) (t5, s5) = Inr (t6, s6)"
    unfolding t6_def s6_def by (rule po2_name_at [OF r5]) (simp_all add: PN_def nm)
  have r6: "rest s6 = PD @ R7" "unused_bits s6 = []"
    by (simp_all add: s6_def r5 R6_def)
  have 7: "po2_clip_depth E (has_clip_bracket f) (t6, s6) = Inr (t7, s7)"
    unfolding t7_def s7_def by (rule po2_clip_depth_at [OF r6]) (simp_all add: PD_def)
  have r7: "rest s7 = PF @ R8" "unused_bits s7 = []"
    by (simp_all add: s7_def r6 R7_def)
  have 8: "po2_filters E v (has_filters f) (t7, s7) = Inr (t7, s8)"
    unfolding s8_def by (rule po2_filters_at [OF r7]) (simp_all add: PF_def fl)
  have r8: "rest s8 = PB @ R9" "unused_bits s8 = []"
    by (simp_all add: s8_def r7 R8_def)
  have 9: "po2_discard_u8 (has_blend_mode f) (t7, s8) = Inr (t7, s9)"
    unfolding s9_def by (rule po2_discard_u8_at [OF r8, of _ bm]) (simp_all add: PB_def)
  have r9: "rest s9 = PK @ R" "unused_bits s9 = []"
    by (simp_all add: s9_def r8 R9_def)
  have 10: "po2_discard_u8 (has_bitmap_caching f) (t7, s9) = Inr (t7, s10)"
    unfolding s10_def by (rule po2_discard_u8_at [OF r9, of _ bc]) (simp_all add: PK_def)
  have run: "readPlaceObject2 E v p2 (t, s) =
      bnd (po2_actions E v (has_actions f) (t7, s10))
        (\<lambda>(t', s'). Inr (po2_place_type (has_char f) (flag_move f) t', s'))"
    by (simp add: readPlaceObject2_def f0 1 2 3 4 5 6 7 8 9 10)
  have t7: "t7 = t\<lparr>m_depth := uint (le16 d0 d1) + staticDepthOffset E,
              m_character_id := (if has_char f then le16 c0 c1 else m_character_id t),
              m_has_matrix := (has_matrix f \<or> m_has_matrix t),
              m_matrix := (if has_matrix f then M else m_matrix t),
              m_has_cxform := (has_cxform f \<or> m_has_cxform t),
              m_color_transform := (if has_cxform f then C else m_color_transform t),
              m_ratio := (if has_ratio f then uint (le16 r0 r1) else noRatioValue E),
              m_name := (if has_name f then Some nm else m_name t),
              m_clip_depth := (if has_clip_bracket f then uint (le16 k0 k1) + staticDepthOffset E
                               else noClipDepthValue E)\<rparr>"
    by (simp add: t7_def t6_def t5_def t4_def t3_def t2_def t1_def)
  have "length (rest s) - length R =
      Suc (length B1) + 2 + length PC + length PM + length PX + length PR + length PN
        + length PD + length PF + length PB + length PK"
    by (simp add: rs Rs)
  then have s10: "s10 = advance (length (rest s) - length R) s"
    by (simp only: s10_def s9_def s8_def s7_def s6_def s5_def s4_def s3_def s2_def s1_def
        s0_def advance_advance)
  show ?thesis
    unfolding run t7 [symmetric] s10 [symmetric]
    by (cases "has_actions f")
      (simp_all add: po2_actions_def bnd_def po2_place_type_eq split: sum.splits)
qed

text \<open>
  Claim C4. Take a PlaceObject2 or PlaceObject3 tag whose bytes are, in this order: the
  flag byte (has-actions, has-clip-depth, has-name, has-ratio, has-cxform, has-matrix,
  has-character, move, from the most significant bit down); for PlaceObject3 from
  version 8 on, and only then, a second flag byte (five reserved bits, has-bitmap-caching,
  has-blend-mode, has-filters); the two bytes of the depth; and then, each only when its
  flag is set, the character id, an encoded matrix, an encoded RGBA colour transform, the
  ratio, the zero-terminated name, the clip depth, an encoded filter list, the blend-mode
  byte and the bitmap-caching byte. Then the decoder fills the record with exactly these
  values (depth and clip depth plus the static depth offset, the sentinels for an absent
  ratio and an absent clip depth), leaves the filter list and the two bytes out of the
  record, hands the bytes that follow to the event table decoder when has-actions is
  set, and sets the place type last.
\<close>

theorem extended_tag_layout:
  assumes "tag = PLACEOBJECT2 \<or> tag = PLACEOBJECT3"
    and "v8 = (tag = PLACEOBJECT3 \<and> v \<ge> 8)"
    and "f = flags_of_bytes v8 b0 b1"
    and "rest s =
        b0 # (if v8 then [b1] else [])
        @ [d0, d1]
        @ (if has_char f then [c0, c1] else [])
        @ (if has_matrix f then MB else [])
        @ (if has_cxform f then CB else [])
        @ (if has_ratio f then [r0, r1] else [])
        @ (if has_name f then nm @ [0] else [])
        @ (if has_clip_bracket f then [k0, k1] else [])
        @ (if has_filters f then FB else [])
        @ (if has_blend_mode f then [bm] else [])
        @ (if has_bitmap_caching f then [bc] else [])
        @ R"
    and "has_matrix f \<Longrightarrow> \<forall>xs. matrix_read E (MB @ xs) = Inr (M, length MB)"
    and "has_cxform f \<Longrightarrow> \<forall>xs. cxform_read_rgba E (CB @ xs) = Inr (C, length CB)"
    and "has_filters f \<Longrightarrow> \<forall>xs. filter_factory_read E v (FB @ xs) = Inr ((), length FB)"
    and "has_name f \<Longrightarrow> 0 \<notin> set nm"
  shows "read E tag v (t, s) =
     (case (if has_actions f
            then readPlaceActions E v
            else Inr)
           (t\<lparr>m_tag_type := tag,
              m_depth := uint (le16 d0 d1) + staticDepthOffset E,
              m_character_id := (if has_char f then le16 c0 c1 else m_character_id t),
              m_has_matrix := (has_matrix f \<or> m_has_matrix t),
              m_matrix := (if has_matrix f then M else m_matrix t),
              m_has_cxform := (has_cxform f \<or> m_has_cxform t),
              m_color_transform := (if has_cxform f then C else m_color_transform t),
              m_ratio := (if has_ratio f then uint (le16 r0 r1) else noRatioValue E),
              m_name := (if has_name f then Some nm else m_name t),
              m_clip_depth := (if has_clip_bracket f then uint (le16 k0 k1) + staticDepthOffset E
                               else noClipDepthValue E)\<rparr>,
            advance (length (rest s) - length R) s) of
        Inl e \<Rightarrow> Inl e
      | Inr (t', s') \<Rightarrow>
          Inr (t'\<lparr>m_place_type :=
                 (if has_char f then (if flag_move f then REPLACE else PLACE)
                  else (if flag_move f then MOVE else REMOVE))\<rparr>, s'))"
proof -
  from assms(1) have rd: "read E tag v (t, s) =
      readPlaceObject2 E v (tag \<noteq> PLACEOBJECT3) (t\<lparr>m_tag_type := tag\<rparr>, s)"
    by (auto simp: read_def)
  from assms(2) have v8: "v8 = (\<not> tag \<noteq> PLACEOBJECT3 \<and> v \<ge> 8)"
    by simp
  show ?thesis
    unfolding rd
    by (simp add: readPlaceObject2_layout [OF v8 assms(3-8)])
qed

theorem extended_tag_layout_witness:
  "read test_collaborators PLACEOBJECT3 8 (new_tag, tag_bytes place_object3_bytes) =
     Inr (new_tag\<lparr>m_tag_type := PLACEOBJECT3, m_name := Some [104, 105], m_ratio := 9,
            m_color_transform := [1, 2, 3, 4], m_matrix := [170], m_has_matrix := True,
            m_has_cxform := True, m_depth := - 16383, m_character_id := 5,
            m_clip_depth := - 16381, m_place_type := PLACE, all_event_flags := 1\<rparr>,
          advance 31 (tag_bytes place_object3_bytes))"
proof -
  have "read test_collaborators PLACEOBJECT3 8 (new_tag, tag_bytes place_object3_bytes) =
     (case (if has_actions (flags_of_bytes True 254 7)
            then readPlaceActions test_collaborators 8
            else Inr)
           (new_tag\<lparr>m_tag_type := PLACEOBJECT3,
              m_depth := uint (le16 1 0) + staticDepthOffset test_collaborators,
              m_character_id :=
                (if has_char (flags_of_bytes True 254 7) then le16 5 0
                 else m_character_id new_tag),
              m_has_matrix := (has_matrix (flags_of_bytes True 254 7) \<or> m_has_matrix new_tag),
              m_matrix :=
                (if has_matrix (flags_of_bytes True 254 7) then [170] else m_matrix new_tag),
              m_has_cxform := (has_cxform (flags_of_bytes True 254 7) \<or> m_has_cxform new_tag),
              m_color_transform :=
                (if has_cxform (flags_of_bytes True 254 7) then [1, 2, 3, 4]
                 else m_color_transform new_tag),
              m_ratio :=
                (if has_ratio (flags_of_bytes True 254 7) then uint (le16 9 0)
                 else noRatioValue test_collaborators),
              m_name :=
                (if has_name (flags_of_bytes True 254 7) then Some [104, 105]
                 else m_name new_tag),
              m_clip_depth :=
                (if has_clip_bracket (flags_of_bytes True 254 7)
                 then uint (le16 3 0) + staticDepthOffset test_collaborators
                 else noClipDepthValue test_collaborators)\<rparr>,
            advance (length (rest (tag_bytes place_object3_bytes))
                     - length [0, 0, 1, 0, 0, 0, 0, 0, 0, 0 :: byte])
              (tag_bytes place_object3_bytes)) of
        Inl e \<Rightarrow> Inl e
      | Inr (t', s') \<Rightarrow>
          Inr (t'\<lparr>m_place_type :=
                 (if has_char (flags_of_bytes True 254 7)
                  then (if flag_move (flags_of_bytes True 254 7) then REPLACE else PLACE)
                  else (if flag_move (flags_of_bytes True 254 7) then MOVE else REMOVE))\<rparr>, s'))"
    by (rule extended_tag_layout [where ?v8.0 = True and ?b0.0 = 254 and ?b1.0 = 7 and MB = "[170]"
          and CB = "[1, 2, 3, 4]" and FB = "[0]" and bm = 2 and bc = 1])
      (simp_all add: place_object3_bytes_def tag_bytes_def flags_of_bytes_def
        test_collaborators_def take_bytes_def)
  also have "\<dots> =
     Inr (new_tag\<lparr>m_tag_type := PLACEOBJECT3, m_name := Some [104, 105], m_ratio := 9,
            m_color_transform := [1, 2, 3, 4], m_matrix := [170], m_has_matrix := True,
            m_has_cxform := True, m_depth := - 16383, m_character_id := 5,
            m_clip_depth := - 16381, m_place_type := PLACE, all_event_flags := 1\<rparr>,
          advance 31 (tag_bytes place_object3_bytes))"
    by code_simp
  finally show ?thesis .
qed

end
